theory Spec2Isabelle
  imports Complex_Main
begin

section \<open>Conformance checks for online-learning estimators\<close>

text \<open>
  This theory embeds \<^verbatim>\<open>creme/utils/estimator_checks.py\<close>. The module is a set of checks: it
  calls methods of a model object handed in by the caller and asserts facts about what
  they return. The estimator classes, the datasets and the Python built-ins it calls
  live outside the module, so they are parameters of the embedding, collected in the
  record \<open>library\<close> below. Python objects live in an explicit store, since the module
  rebinds and mutates model objects and copies them before use.

  A feature dictionary \<open>x\<close> and a target \<open>y\<close> are values: \<^verbatim>\<open>copy.deepcopy(x)\<close> is \<open>x\<close>
  itself, \<^verbatim>\<open>x == xx\<close> is equality, and a call that may change \<open>x\<close> returns what it
  left of it. A dataset object gives a finite list of pairs; a dataset that is a
  generator gives each of its pairs once, to whichever loop asks first, and the store
  keeps how many it has given. Numbers are of a type that the library fixes, with its
  own addition, order and \<^verbatim>\<open>math.isclose\<close>, so nothing here depends on how floating point rounds.
\<close>

subsection \<open>Data model\<close>

type_synonym addr = nat

text \<open>The base classes of the library that the module tests \<^verbatim>\<open>isinstance\<close> against.\<close>

datatype base = Pipeline | Wrapper | Classifier | MultiClassifier | Regressor
  | MultiOutputRegressor

text \<open>
  The four built-in sources of data: \<^verbatim>\<open>datasets.Phishing()\<close>, the stream over
  \<^verbatim>\<open>load_iris()\<close>, \<^verbatim>\<open>datasets.TrumpApproval()\<close> and the stream over
  \<^verbatim>\<open>load_linnerud()\<close>. A dataset object is one evaluation of such an expression:
  two evaluations give two objects, told apart by a serial number.
\<close>

datatype source = Phishing | Iris | TrumpApproval | Linnerud

datatype dataset = Dataset (serial: nat) (source: source)

text \<open>An exception raised by library code is identified by its class name.\<close>

type_synonym exn = string

text \<open>
  What a check can raise: the \<^verbatim>\<open>AssertionError\<close> of a failed \<^verbatim>\<open>assert\<close>, the
  \<^verbatim>\<open>TypeError\<close> of a built-in applied to a value of the wrong type, or an
  exception that a call into the library raised and the module lets through.
\<close>

datatype error = AssertionError | TypeError | Raised exn

text \<open>
  A model object: its class (\<^verbatim>\<open>model.__class__\<close>), its learned state, and the two
  attributes the module reads, \<^verbatim>\<open>model.final_estimator\<close> and \<^verbatim>\<open>model._model\<close>.
  Reading an attribute either raises or gives the nested estimator.
\<close>

datatype ('c, 's) model =
  Model (class_of: 'c) (state: 's)
    (final_estimator: "exn + ('c, 's) model")
    (inner_model: "exn + ('c, 's) model")

text \<open>
  The values the module inspects: strings, dictionaries (an association list in
  insertion order, from keys to numbers) and \<^verbatim>\<open>None\<close>.
\<close>

datatype ('k, 'f) pyval = PyStr string | PyDict "('k \<times> 'f) list" | PyNone

text \<open>
  The store: the objects by address, the next address that an allocation uses, and
  for every dataset object the number of pairs that loops have taken from it so far.
\<close>

record ('c, 's) store =
  fresh :: addr
  objs :: "addr \<Rightarrow> ('c, 's) model"
  taken :: "dataset \<Rightarrow> nat"

type_synonym ('c, 's, 'r) call = "('c, 's) store \<times> (exn + 'r)"

text \<open>
  Everything the module calls and does not define. A method takes the store and the
  address of its receiver and returns the store it leaves and either the exception it
  raised or its result. A mutable argument (\<^verbatim>\<open>x\<close>, \<^verbatim>\<open>y\<close>) is returned as the call
  left it. \<open>items\<close> is the list of pairs of a dataset object, and \<open>one_shot\<close> says
  that the object is a generator, which cannot be iterated over again.
\<close>

record ('c, 's, 'x, 'y, 'k, 'f) library =
  issubclass :: "'c \<Rightarrow> 'c \<Rightarrow> bool"
  is_base :: "'c \<Rightarrow> base \<Rightarrow> bool"
  has_debug_one :: "('c, 's) model \<Rightarrow> bool"
  fit_one :: "('c, 's) store \<Rightarrow> addr \<Rightarrow> 'x \<Rightarrow> 'y \<Rightarrow> ('c, 's, addr \<times> 'x \<times> 'y) call"
  predict_one :: "('c, 's) store \<Rightarrow> addr \<Rightarrow> 'x \<Rightarrow> ('c, 's, 'x) call"
  predict_proba_one :: "('c, 's) store \<Rightarrow> addr \<Rightarrow> 'x \<Rightarrow> ('c, 's, ('k, 'f) pyval \<times> 'x) call"
  debug_one :: "('c, 's) store \<Rightarrow> addr \<Rightarrow> 'x \<Rightarrow> ('c, 's, 'x) call"
  py_repr :: "('c, 's) store \<Rightarrow> addr \<Rightarrow> ('c, 's, ('k, 'f) pyval) call"
  py_str :: "('c, 's) store \<Rightarrow> addr \<Rightarrow> ('c, 's, ('k, 'f) pyval) call"
  get_tags :: "('c, 's) store \<Rightarrow> addr \<Rightarrow> ('c, 's, ('k, 'f) pyval) call"
  dumps :: "('c, 's) store \<Rightarrow> addr \<Rightarrow> ('c, 's, string) call"
  loads :: "('c, 's) store \<Rightarrow> string \<Rightarrow> ('c, 's, addr) call"
  deepcopy :: "('c, 's) store \<Rightarrow> addr \<Rightarrow> ('c, 's, addr) call"
  items :: "dataset \<Rightarrow> ('x \<times> 'y) list"
  one_shot :: "dataset \<Rightarrow> bool"
  isclose :: "'f \<Rightarrow> 'f \<Rightarrow> bool"
  fadd :: "'f \<Rightarrow> 'f \<Rightarrow> 'f"
  fle :: "'f \<Rightarrow> 'f \<Rightarrow> bool"
  fzero :: 'f
  fone :: 'f
  bool_key :: "bool \<Rightarrow> 'k"

subsection \<open>\<^verbatim>\<open>guess_model\<close>\<close>

fun guess_model ::
  "('c, 's, 'x, 'y, 'k, 'f) library \<Rightarrow> ('c, 's) model \<Rightarrow> exn + ('c, 's) model" where
  "guess_model L (Model c s fe im) =
     (if is_base L c Pipeline then
        (case fe of Inl e \<Rightarrow> Inl e | Inr m \<Rightarrow> guess_model L m)
      else if is_base L c Wrapper then
        (case im of Inl e \<Rightarrow> Inl e | Inr m \<Rightarrow> guess_model L m)
      else Inr (Model c s fe im))"

subsection \<open>\<^verbatim>\<open>yield_datasets\<close>\<close>

text \<open>
  A generator is the list of what it yields, in order, and the exception that ends it,
  if one does. \<^verbatim>\<open>yield_datasets\<close> can only raise inside \<^verbatim>\<open>guess_model\<close>, before its
  first \<^verbatim>\<open>yield\<close>. An exception that leaves the body of a generator is passed on
  as it is, except \<^verbatim>\<open>StopIteration\<close>, which Python (3.7 and later) replaces by a
  \<^verbatim>\<open>RuntimeError\<close>.
\<close>

definition generator_raises :: "exn \<Rightarrow> error" where
  "generator_raises e = Raised (if e = ''StopIteration'' then ''RuntimeError'' else e)"

text \<open>The dataset objects that a generator creates, numbered in the order of creation.\<close>

definition created :: "source list \<Rightarrow> dataset list" where
  "created sources = map (\<lambda>(n, s). Dataset n s) (enumerate 0 sources)"

definition yield_datasets ::
  "('c, 's, 'x, 'y, 'k, 'f) library \<Rightarrow> ('c, 's) model \<Rightarrow> dataset list \<times> error option" where
  "yield_datasets L model =
     (case guess_model L model of
        Inl e \<Rightarrow> ([], Some (generator_raises e))
      | Inr model \<Rightarrow>
          (created
             ((if is_base L (class_of model) Classifier then [Phishing] else []) @
              (if is_base L (class_of model) MultiClassifier then [Iris] else []) @
              (if is_base L (class_of model) Regressor then [TrumpApproval] else []) @
              (if is_base L (class_of model) MultiOutputRegressor then [Linnerud] else []) @
              (if is_base L (class_of model) MultiOutputRegressor then [Linnerud] else [])),
           None))"

subsection \<open>The checks\<close>

type_synonym ('c, 's) outcome = "('c, 's) store \<times> (error + unit)"

text \<open>\<^verbatim>\<open>isinstance(obj, klass)\<close> for an object in the store and a class of the library.\<close>

definition isinstance ::
  "('c, 's, 'x, 'y, 'k, 'f) library \<Rightarrow> ('c, 's) store \<Rightarrow> addr \<Rightarrow> 'c \<Rightarrow> bool" where
  "isinstance L st obj c = issubclass L (class_of (objs st obj)) c"

text \<open>
  \<^verbatim>\<open>for x, y in dataset\<close>. \<open>pairs_of\<close> is the list of pairs that a loop over the
  dataset object gets when it starts in the given store: all of them, or those that a
  generator has not given yet. \<open>take_pair\<close> is the store after the loop has taken
  one more pair.
\<close>

definition pairs_of ::
  "('c, 's, 'x, 'y, 'k, 'f) library \<Rightarrow> ('c, 's) store \<Rightarrow> dataset \<Rightarrow> ('x \<times> 'y) list" where
  "pairs_of L st dataset =
     (if one_shot L dataset then drop (taken st dataset) (items L dataset)
      else items L dataset)"

definition take_pair ::
  "('c, 's, 'x, 'y, 'k, 'f) library \<Rightarrow> dataset \<Rightarrow> ('c, 's) store \<Rightarrow> ('c, 's) store" where
  "take_pair L dataset st =
     (if one_shot L dataset
      then st\<lparr>taken := (taken st)(dataset := Suc (taken st dataset))\<rparr>
      else st)"

text \<open>
  The loop of \<^verbatim>\<open>check_fit_one\<close>, over the pairs still to come. The deep copies \<open>xx\<close>
  and \<open>yy\<close> are the values of \<open>x\<close> and \<open>y\<close> before the call; \<open>x1\<close> and \<open>y1\<close> are
  \<open>x\<close> and \<open>y\<close> as the call left them. The variable \<^verbatim>\<open>model\<close> is rebound to what
  \<^verbatim>\<open>fit_one\<close> returned.
\<close>

fun check_fit_one_loop ::
  "('c, 's, 'x, 'y, 'k, 'f) library \<Rightarrow> dataset \<Rightarrow> 'c \<Rightarrow> ('c, 's) store \<Rightarrow> addr
     \<Rightarrow> ('x \<times> 'y) list \<Rightarrow> ('c, 's) outcome" where
  "check_fit_one_loop L dataset klass st model [] = (st, Inr ())"
| "check_fit_one_loop L dataset klass st model ((x, y) # rest) =
     (let xx = x; yy = y in
      case fit_one L (take_pair L dataset st) model x y of
        (st1, Inl e) \<Rightarrow> (st1, Inl (Raised e))
      | (st1, Inr (model1, x1, y1)) \<Rightarrow>
          if \<not> isinstance L st1 model1 klass then (st1, Inl AssertionError)
          else if x1 \<noteq> xx then (st1, Inl AssertionError)
          else if y1 \<noteq> yy then (st1, Inl AssertionError)
          else check_fit_one_loop L dataset klass st1 model1 rest)"

definition check_fit_one ::
  "('c, 's, 'x, 'y, 'k, 'f) library \<Rightarrow> ('c, 's) store \<Rightarrow> addr \<Rightarrow> dataset \<Rightarrow> ('c, 's) outcome" where
  "check_fit_one L st model dataset =
     (let klass = class_of (objs st model) in
      check_fit_one_loop L dataset klass st model (pairs_of L st dataset))"

text \<open>\<^verbatim>\<open>isinstance(y_pred, dict)\<close>, \<^verbatim>\<open>isinstance(v, str)\<close> and \<^verbatim>\<open>sum(y_pred.values())\<close>.\<close>

fun is_dict :: "('k, 'f) pyval \<Rightarrow> bool" where
  "is_dict (PyDict d) = True"
| "is_dict v = False"

fun is_str :: "('k, 'f) pyval \<Rightarrow> bool" where
  "is_str (PyStr s) = True"
| "is_str v = False"

fun dict_values :: "('k, 'f) pyval \<Rightarrow> 'f list" where
  "dict_values (PyDict d) = map snd d"
| "dict_values v = []"

definition py_sum :: "('c, 's, 'x, 'y, 'k, 'f) library \<Rightarrow> 'f list \<Rightarrow> 'f" where
  "py_sum L vs = foldl (fadd L) (fzero L) vs"

fun check_predict_proba_one_loop ::
  "('c, 's, 'x, 'y, 'k, 'f) library \<Rightarrow> dataset \<Rightarrow> ('c, 's) store \<Rightarrow> addr
     \<Rightarrow> ('x \<times> 'y) list \<Rightarrow> ('c, 's) outcome" where
  "check_predict_proba_one_loop L dataset st classifier [] = (st, Inr ())"
| "check_predict_proba_one_loop L dataset st classifier ((x, y) # rest) =
     (let xx = x; yy = y in
      case fit_one L (take_pair L dataset st) classifier x y of
        (st1, Inl e) \<Rightarrow> (st1, Inl (Raised e))
      | (st1, Inr (classifier1, x1, y1)) \<Rightarrow>
          (case predict_proba_one L st1 classifier1 x1 of
             (st2, Inl e) \<Rightarrow> (st2, Inl (Raised e))
           | (st2, Inr (y_pred, x2)) \<Rightarrow>
               if \<not> is_dict y_pred then (st2, Inl AssertionError)
               else if \<not> isclose L (py_sum L (dict_values y_pred)) (fone L)
                 then (st2, Inl AssertionError)
               else if \<not> list_all (\<lambda>proba. fle L (fzero L) proba \<and> fle L proba (fone L))
                          (dict_values y_pred)
                 then (st2, Inl AssertionError)
               else if x2 \<noteq> xx then (st2, Inl AssertionError)
               else if y1 \<noteq> yy then (st2, Inl AssertionError)
               else check_predict_proba_one_loop L dataset st2 classifier1 rest))"

definition check_predict_proba_one ::
  "('c, 's, 'x, 'y, 'k, 'f) library \<Rightarrow> ('c, 's) store \<Rightarrow> addr \<Rightarrow> dataset \<Rightarrow> ('c, 's) outcome" where
  "check_predict_proba_one L st classifier dataset =
     check_predict_proba_one_loop L dataset st classifier (pairs_of L st dataset)"

text \<open>
  \<^verbatim>\<open>len(y_pred)\<close> and \<^verbatim>\<open>b in y_pred\<close> for a Boolean \<open>b\<close>; both raise \<^verbatim>\<open>TypeError\<close>
  on \<^verbatim>\<open>None\<close>, and the membership test raises it on a string.
\<close>

fun py_len :: "('k, 'f) pyval \<Rightarrow> error + nat" where
  "py_len (PyStr s) = Inr (length s)"
| "py_len (PyDict d) = Inr (length d)"
| "py_len PyNone = Inl TypeError"

fun py_contains ::
  "('c, 's, 'x, 'y, 'k, 'f) library \<Rightarrow> bool \<Rightarrow> ('k, 'f) pyval \<Rightarrow> error + bool" where
  "py_contains L b (PyDict d) = Inr (bool_key L b \<in> set (map fst d))"
| "py_contains L b (PyStr s) = Inl TypeError"
| "py_contains L b PyNone = Inl TypeError"

fun check_predict_proba_one_binary_loop ::
  "('c, 's, 'x, 'y, 'k, 'f) library \<Rightarrow> dataset \<Rightarrow> ('c, 's) store \<Rightarrow> addr
     \<Rightarrow> ('x \<times> 'y) list \<Rightarrow> ('c, 's) outcome" where
  "check_predict_proba_one_binary_loop L dataset st classifier [] = (st, Inr ())"
| "check_predict_proba_one_binary_loop L dataset st classifier ((x, y) # rest) =
     (case predict_proba_one L (take_pair L dataset st) classifier x of
        (st1, Inl e) \<Rightarrow> (st1, Inl (Raised e))
      | (st1, Inr (y_pred, x1)) \<Rightarrow>
          (case fit_one L st1 classifier x1 y of
             (st2, Inl e) \<Rightarrow> (st2, Inl (Raised e))
           | (st2, Inr (classifier1, x2, y2)) \<Rightarrow>
               (case py_len y_pred of
                  Inl err \<Rightarrow> (st2, Inl err)
                | Inr n \<Rightarrow>
                    if n \<noteq> 2 then (st2, Inl AssertionError)
                    else
                      (case py_contains L True y_pred of
                         Inl err \<Rightarrow> (st2, Inl err)
                       | Inr has_true \<Rightarrow>
                           if \<not> has_true then (st2, Inl AssertionError)
                           else
                             (case py_contains L False y_pred of
                                Inl err \<Rightarrow> (st2, Inl err)
                              | Inr has_false \<Rightarrow>
                                  if \<not> has_false then (st2, Inl AssertionError)
                                  else check_predict_proba_one_binary_loop L dataset st2
                                         classifier1 rest)))))"

definition check_predict_proba_one_binary ::
  "('c, 's, 'x, 'y, 'k, 'f) library \<Rightarrow> ('c, 's) store \<Rightarrow> addr \<Rightarrow> dataset \<Rightarrow> ('c, 's) outcome" where
  "check_predict_proba_one_binary L st classifier dataset =
     check_predict_proba_one_binary_loop L dataset st classifier (pairs_of L st dataset)"

text \<open>\<^verbatim>\<open>check_debug_one\<close> leaves its loop at the \<^verbatim>\<open>break\<close>, after the first pair.\<close>

definition check_debug_one ::
  "('c, 's, 'x, 'y, 'k, 'f) library \<Rightarrow> ('c, 's) store \<Rightarrow> addr \<Rightarrow> dataset \<Rightarrow> ('c, 's) outcome" where
  "check_debug_one L st model dataset =
     (case pairs_of L st dataset of
        [] \<Rightarrow> (st, Inr ())
      | (x, y) # rest \<Rightarrow>
          (case debug_one L (take_pair L dataset st) model x of
             (st1, Inl e) \<Rightarrow> (st1, Inl (Raised e))
           | (st1, Inr x1) \<Rightarrow>
               (case fit_one L st1 model x1 y of
                  (st2, Inl e) \<Rightarrow> (st2, Inl (Raised e))
                | (st2, Inr (returned, x2, y2)) \<Rightarrow>
                    (case debug_one L st2 model x2 of
                       (st3, Inl e) \<Rightarrow> (st3, Inl (Raised e))
                     | (st3, Inr x3) \<Rightarrow> (st3, Inr ())))))"

text \<open>
  The statement
  \<^verbatim>\<open>assert isinstance(pickle.loads(pickle.dumps(model)), model.__class__)\<close>,
  which \<^verbatim>\<open>check_pickling\<close> has twice.
\<close>

definition assert_pickles ::
  "('c, 's, 'x, 'y, 'k, 'f) library \<Rightarrow> ('c, 's) store \<Rightarrow> addr \<Rightarrow> ('c, 's) outcome" where
  "assert_pickles L st model =
     (case dumps L st model of
        (st1, Inl e) \<Rightarrow> (st1, Inl (Raised e))
      | (st1, Inr pickled) \<Rightarrow>
          (case loads L st1 pickled of
             (st2, Inl e) \<Rightarrow> (st2, Inl (Raised e))
           | (st2, Inr loaded) \<Rightarrow>
               if isinstance L st2 loaded (class_of (objs st2 model)) then (st2, Inr ())
               else (st2, Inl AssertionError)))"

fun check_pickling_loop ::
  "('c, 's, 'x, 'y, 'k, 'f) library \<Rightarrow> dataset \<Rightarrow> ('c, 's) store \<Rightarrow> addr
     \<Rightarrow> ('x \<times> 'y) list \<Rightarrow> ('c, 's) outcome" where
  "check_pickling_loop L dataset st model [] = (st, Inr ())"
| "check_pickling_loop L dataset st model ((x, y) # rest) =
     (case predict_one L (take_pair L dataset st) model x of
        (st1, Inl e) \<Rightarrow> (st1, Inl (Raised e))
      | (st1, Inr x1) \<Rightarrow>
          (case fit_one L st1 model x1 y of
             (st2, Inl e) \<Rightarrow> (st2, Inl (Raised e))
           | (st2, Inr (returned, x2, y2)) \<Rightarrow>
               check_pickling_loop L dataset st2 model rest))"

definition check_pickling ::
  "('c, 's, 'x, 'y, 'k, 'f) library \<Rightarrow> ('c, 's) store \<Rightarrow> addr \<Rightarrow> dataset \<Rightarrow> ('c, 's) outcome" where
  "check_pickling L st model dataset =
     (case assert_pickles L st model of
        (st1, Inl err) \<Rightarrow> (st1, Inl err)
      | (st1, Inr u) \<Rightarrow>
          (case check_pickling_loop L dataset st1 model (pairs_of L st1 dataset) of
             (st2, Inl err) \<Rightarrow> (st2, Inl err)
           | (st2, Inr u) \<Rightarrow> assert_pickles L st2 model))"

definition check_repr ::
  "('c, 's, 'x, 'y, 'k, 'f) library \<Rightarrow> ('c, 's) store \<Rightarrow> addr \<Rightarrow> ('c, 's) outcome" where
  "check_repr L st model =
     (case py_repr L st model of
        (st1, Inl e) \<Rightarrow> (st1, Inl (Raised e))
      | (st1, Inr v) \<Rightarrow> if is_str v then (st1, Inr ()) else (st1, Inl AssertionError))"

definition check_str ::
  "('c, 's, 'x, 'y, 'k, 'f) library \<Rightarrow> ('c, 's) store \<Rightarrow> addr \<Rightarrow> ('c, 's) outcome" where
  "check_str L st model =
     (case py_str L st model of
        (st1, Inl e) \<Rightarrow> (st1, Inl (Raised e))
      | (st1, Inr v) \<Rightarrow> if is_str v then (st1, Inr ()) else (st1, Inl AssertionError))"

definition check_get_tags ::
  "('c, 's, 'x, 'y, 'k, 'f) library \<Rightarrow> ('c, 's) store \<Rightarrow> addr \<Rightarrow> ('c, 's) outcome" where
  "check_get_tags L st model =
     (case get_tags L st model of
        (st1, Inl e) \<Rightarrow> (st1, Inl (Raised e))
      | (st1, Inr v) \<Rightarrow> if is_dict v then (st1, Inr ()) else (st1, Inl AssertionError))"

subsection \<open>\<^verbatim>\<open>yield_checks\<close>\<close>

text \<open>
  Function objects. A \<open>dataset_method\<close> is one of the functions of two arguments
  \<^verbatim>\<open>(model, dataset)\<close>; a \<open>check\<close> is what \<^verbatim>\<open>yield_checks\<close> yields, callable on a
  model alone. \<open>name\<close> is \<^verbatim>\<open>__name__\<close>, \<open>kw_dataset\<close> the dataset that a
  \<^verbatim>\<open>functools.partial\<close> object has bound, \<open>run\<close> and \<open>body\<close> what a call does.
\<close>

record ('c, 's) check =
  name :: string
  kw_dataset :: "dataset option"
  run :: "('c, 's) store \<Rightarrow> addr \<Rightarrow> ('c, 's) outcome"

record ('c, 's) dataset_method =
  fn_name :: string
  body :: "('c, 's) store \<Rightarrow> addr \<Rightarrow> dataset \<Rightarrow> ('c, 's) outcome"

definition check_repr_fn :: "('c, 's, 'x, 'y, 'k, 'f) library \<Rightarrow> ('c, 's) check" where
  "check_repr_fn L = \<lparr>name = ''check_repr'', kw_dataset = None, run = check_repr L\<rparr>"

definition check_str_fn :: "('c, 's, 'x, 'y, 'k, 'f) library \<Rightarrow> ('c, 's) check" where
  "check_str_fn L = \<lparr>name = ''check_str'', kw_dataset = None, run = check_str L\<rparr>"

definition check_get_tags_fn :: "('c, 's, 'x, 'y, 'k, 'f) library \<Rightarrow> ('c, 's) check" where
  "check_get_tags_fn L =
     \<lparr>name = ''check_get_tags'', kw_dataset = None, run = check_get_tags L\<rparr>"

definition check_fit_one_fn :: "('c, 's, 'x, 'y, 'k, 'f) library \<Rightarrow> ('c, 's) dataset_method" where
  "check_fit_one_fn L = \<lparr>fn_name = ''check_fit_one'', body = check_fit_one L\<rparr>"

definition check_pickling_fn :: "('c, 's, 'x, 'y, 'k, 'f) library \<Rightarrow> ('c, 's) dataset_method" where
  "check_pickling_fn L = \<lparr>fn_name = ''check_pickling'', body = check_pickling L\<rparr>"

definition check_debug_one_fn :: "('c, 's, 'x, 'y, 'k, 'f) library \<Rightarrow> ('c, 's) dataset_method" where
  "check_debug_one_fn L = \<lparr>fn_name = ''check_debug_one'', body = check_debug_one L\<rparr>"

definition check_predict_proba_one_fn ::
  "('c, 's, 'x, 'y, 'k, 'f) library \<Rightarrow> ('c, 's) dataset_method" where
  "check_predict_proba_one_fn L =
     \<lparr>fn_name = ''check_predict_proba_one'', body = check_predict_proba_one L\<rparr>"

definition check_predict_proba_one_binary_fn ::
  "('c, 's, 'x, 'y, 'k, 'f) library \<Rightarrow> ('c, 's) dataset_method" where
  "check_predict_proba_one_binary_fn L =
     \<lparr>fn_name = ''check_predict_proba_one_binary'',
      body = check_predict_proba_one_binary L\<rparr>"

text \<open>
  The inner helper of \<^verbatim>\<open>yield_checks\<close>:
  \<^verbatim>\<open>check = functools.partial(check_fit_one, dataset=dataset)\<close>, then
  \<^verbatim>\<open>functools.update_wrapper(check, method)\<close>, which copies the name of \<^verbatim>\<open>method\<close>.
\<close>

definition with_dataset ::
  "('c, 's, 'x, 'y, 'k, 'f) library \<Rightarrow> dataset \<Rightarrow> ('c, 's) dataset_method \<Rightarrow> ('c, 's) check" where
  "with_dataset L dataset method =
     (let check = \<lparr>name = ''partial'', kw_dataset = Some dataset,
                   run = (\<lambda>st model. check_fit_one L st model dataset)\<rparr>
      in check\<lparr>name := fn_name method\<rparr>)"

text \<open>
  The body of the loop \<^verbatim>\<open>for dataset in yield_datasets(model)\<close>, over the datasets
  still to come. The variable \<^verbatim>\<open>model\<close> of the generator is rebound in each round.
\<close>

fun yield_checks_loop ::
  "('c, 's, 'x, 'y, 'k, 'f) library \<Rightarrow> ('c, 's) model \<Rightarrow> dataset list
     \<Rightarrow> ('c, 's) check list \<times> error option" where
  "yield_checks_loop L model [] = ([], None)"
| "yield_checks_loop L model (dataset # rest) =
     (let first =
            [with_dataset L dataset (check_fit_one_fn L),
             with_dataset L dataset (check_pickling_fn L)] @
            (if has_debug_one L model
             then [with_dataset L dataset (check_debug_one_fn L)] else [])
      in case guess_model L model of
           Inl e \<Rightarrow> (first, Some (generator_raises e))
         | Inr model1 \<Rightarrow>
             (let second =
                    (if is_base L (class_of model1) Classifier
                     then [with_dataset L dataset (check_predict_proba_one_fn L)] else []) @
                    (if \<not> is_base L (class_of model1) MultiClassifier
                     then [with_dataset L dataset (check_predict_proba_one_binary_fn L)]
                     else [])
              in case yield_checks_loop L model1 rest of
                   (later, err) \<Rightarrow> (first @ second @ later, err)))"

definition yield_checks ::
  "('c, 's, 'x, 'y, 'k, 'f) library \<Rightarrow> ('c, 's) model
     \<Rightarrow> ('c, 's) check list \<times> error option" where
  "yield_checks L model =
     (case yield_datasets L model of
        (datasets, stopped) \<Rightarrow>
          (case yield_checks_loop L model datasets of
             (checks, err) \<Rightarrow>
               ([check_repr_fn L, check_str_fn L, check_get_tags_fn L] @ checks,
                case err of Some e \<Rightarrow> Some e | None \<Rightarrow> stopped)))"

subsection \<open>\<^verbatim>\<open>check_estimator\<close>\<close>

text \<open>
  The loop \<^verbatim>\<open>for check in yield_checks(model): check(copy.deepcopy(model))\<close> over the
  checks still to come; \<^verbatim>\<open>model\<close> is the address the caller passed. What the generator
  reads of the caller's model (its class, its nested estimators, whether it has
  \<^verbatim>\<open>debug_one\<close>) is read from the object as it is when \<^verbatim>\<open>check_estimator\<close> is
  entered.
\<close>

fun for_checks ::
  "('c, 's, 'x, 'y, 'k, 'f) library \<Rightarrow> ('c, 's) store \<Rightarrow> addr \<Rightarrow> ('c, 's) check list
     \<Rightarrow> ('c, 's) outcome" where
  "for_checks L st model [] = (st, Inr ())"
| "for_checks L st model (check # rest) =
     (case deepcopy L st model of
        (st1, Inl e) \<Rightarrow> (st1, Inl (Raised e))
      | (st1, Inr copied) \<Rightarrow>
          (case run check st1 copied of
             (st2, Inl err) \<Rightarrow> (st2, Inl err)
           | (st2, Inr u) \<Rightarrow> for_checks L st2 model rest))"

definition check_estimator ::
  "('c, 's, 'x, 'y, 'k, 'f) library \<Rightarrow> ('c, 's) store \<Rightarrow> addr \<Rightarrow> ('c, 's) outcome" where
  "check_estimator L st model =
     (case yield_checks L (objs st model) of
        (checks, stopped) \<Rightarrow>
          (case for_checks L st model checks of
             (st1, Inl err) \<Rightarrow> (st1, Inl err)
           | (st1, Inr u) \<Rightarrow>
               (case stopped of None \<Rightarrow> (st1, Inr ()) | Some err \<Rightarrow> (st1, Inl err))))"

section \<open>What the loops did\<close>

text \<open>
  The rounds of the loop of \<^verbatim>\<open>check_fit_one\<close> in which \<^verbatim>\<open>fit_one\<close> returned: the pair
  \<open>(x, y)\<close> taken from the dataset, the pair as the call left it, the store after the
  call and the object that the call returned. The next round calls \<^verbatim>\<open>fit_one\<close> on
  that object, as the loop does. The asserts of the check are left out: this is what
  happened, not what was required.
\<close>

fun fit_one_rounds ::
  "('c, 's, 'x, 'y, 'k, 'f) library \<Rightarrow> dataset \<Rightarrow> ('c, 's) store \<Rightarrow> addr
     \<Rightarrow> ('x \<times> 'y) list
     \<Rightarrow> (('x \<times> 'y) \<times> ('x \<times> 'y) \<times> ('c, 's) store \<times> addr) list" where
  "fit_one_rounds L dataset st model [] = []"
| "fit_one_rounds L dataset st model ((x, y) # rest) =
     (case fit_one L (take_pair L dataset st) model x y of
        (st1, Inl e) \<Rightarrow> []
      | (st1, Inr (model1, x1, y1)) \<Rightarrow>
          ((x, y), (x1, y1), st1, model1) # fit_one_rounds L dataset st1 model1 rest)"


text \<open>
  The rounds of the loop of \<^verbatim>\<open>check_predict_proba_one\<close> in which both calls returned:
  the pair taken from the dataset, the pair as \<^verbatim>\<open>fit_one\<close> and then
  \<^verbatim>\<open>predict_proba_one\<close> left it, and the prediction.
\<close>

fun predict_proba_one_rounds ::
  "('c, 's, 'x, 'y, 'k, 'f) library \<Rightarrow> dataset \<Rightarrow> ('c, 's) store \<Rightarrow> addr
     \<Rightarrow> ('x \<times> 'y) list \<Rightarrow> (('x \<times> 'y) \<times> ('x \<times> 'y) \<times> ('k, 'f) pyval) list" where
  "predict_proba_one_rounds L dataset st classifier [] = []"
| "predict_proba_one_rounds L dataset st classifier ((x, y) # rest) =
     (case fit_one L (take_pair L dataset st) classifier x y of
        (st1, Inl e) \<Rightarrow> []
      | (st1, Inr (classifier1, x1, y1)) \<Rightarrow>
          (case predict_proba_one L st1 classifier1 x1 of
             (st2, Inl e) \<Rightarrow> []
           | (st2, Inr (y_pred, x2)) \<Rightarrow>
               ((x, y), (x2, y1), y_pred) #
               predict_proba_one_rounds L dataset st2 classifier1 rest))"

text \<open>
  The rounds of the loop of \<^verbatim>\<open>check_pickling\<close> in which both calls returned: the pair
  taken from the dataset, the store in which \<^verbatim>\<open>model.predict_one(x)\<close> was called, the
  store and the \<open>x\<close> that it left, in which \<^verbatim>\<open>model.fit_one(x, y)\<close> was called, and
  the store that this call left. Both calls are made on the model that the check was
  given.
\<close>

fun check_pickling_rounds ::
  "('c, 's, 'x, 'y, 'k, 'f) library \<Rightarrow> dataset \<Rightarrow> ('c, 's) store \<Rightarrow> addr
     \<Rightarrow> ('x \<times> 'y) list
     \<Rightarrow> (('x \<times> 'y) \<times> ('c, 's) store \<times> (('c, 's) store \<times> 'x) \<times> ('c, 's) store) list" where
  "check_pickling_rounds L dataset st model [] = []"
| "check_pickling_rounds L dataset st model ((x, y) # rest) =
     (case predict_one L (take_pair L dataset st) model x of
        (st1, Inl e) \<Rightarrow> []
      | (st1, Inr x1) \<Rightarrow>
          (case fit_one L st1 model x1 y of
             (st2, Inl e) \<Rightarrow> []
           | (st2, Inr (returned, x2, y2)) \<Rightarrow>
               ((x, y), take_pair L dataset st, (st1, x1), st2) #
               check_pickling_rounds L dataset st2 model rest))"

text \<open>
  The objects that the loop of \<^verbatim>\<open>check_estimator\<close> handed to the checks, in order.
\<close>

fun check_arguments ::
  "('c, 's, 'x, 'y, 'k, 'f) library \<Rightarrow> ('c, 's) store \<Rightarrow> addr \<Rightarrow> ('c, 's) check list
     \<Rightarrow> addr list" where
  "check_arguments L st model [] = []"
| "check_arguments L st model (check # rest) =
     (case deepcopy L st model of
        (st1, Inl e) \<Rightarrow> []
      | (st1, Inr copied) \<Rightarrow>
          copied #
          (case run check st1 copied of
             (st2, Inl err) \<Rightarrow> []
           | (st2, Inr u) \<Rightarrow> check_arguments L st2 model rest))"

section \<open>Conditions on the library\<close>

text \<open>
  An address is allocated when it is below the next free one. A call \<open>keeps\<close> the
  objects outside \<open>touched\<close> when it frees nothing and leaves every allocated object
  outside \<open>touched\<close> as it was.
\<close>

definition allocated :: "('c, 's) store \<Rightarrow> addr \<Rightarrow> bool" where
  "allocated st a \<longleftrightarrow> a < fresh st"

definition keeps :: "('c, 's) store \<Rightarrow> addr set \<Rightarrow> ('c, 's) store \<Rightarrow> bool" where
  "keeps st touched st1 \<longleftrightarrow>
     fresh st \<le> fresh st1 \<and>
     (\<forall>a. allocated st a \<and> a \<notin> touched \<longrightarrow> objs st1 a = objs st a)"

text \<open>
  A library that acts on objects only: \<^verbatim>\<open>copy.deepcopy\<close> changes no object that exists
  and returns a new one; a method changes no existing object but its receiver;
  \<^verbatim>\<open>fit_one\<close> returns its receiver or a new object.
\<close>

definition acts_on_receiver :: "('c, 's, 'x, 'y, 'k, 'f) library \<Rightarrow> bool" where
  "acts_on_receiver L \<longleftrightarrow>
     (\<forall>st obj st1 r. allocated st obj \<longrightarrow> deepcopy L st obj = (st1, r) \<longrightarrow>
        keeps st {} st1 \<and>
        (\<forall>copied. r = Inr copied \<longrightarrow> \<not> allocated st copied \<and> allocated st1 copied)) \<and>
     (\<forall>st self x y st1 r. allocated st self \<longrightarrow> fit_one L st self x y = (st1, r) \<longrightarrow>
        keeps st {self} st1 \<and>
        (\<forall>returned x1 y1. r = Inr (returned, x1, y1) \<longrightarrow>
           allocated st1 returned \<and> (returned = self \<or> \<not> allocated st returned))) \<and>
     (\<forall>st self st1 r. allocated st self \<longrightarrow> py_repr L st self = (st1, r) \<longrightarrow>
        keeps st {self} st1) \<and>
     (\<forall>st self st1 r. allocated st self \<longrightarrow> py_str L st self = (st1, r) \<longrightarrow>
        keeps st {self} st1) \<and>
     (\<forall>st self st1 r. allocated st self \<longrightarrow> get_tags L st self = (st1, r) \<longrightarrow>
        keeps st {self} st1)"

section \<open>A small library to run the checks on\<close>

text \<open>
  Seven estimator classes with their base classes, models that count the pairs they
  have learned from, and datasets of a few pairs each. The two streams over data of
  scikit-learn are generators; the other two datasets can be iterated over again.
\<close>

datatype demo_class = PipelineClass | BaggingClassifier | LogisticRegression
  | KNeighborsClassifier | LinearRegression | RegressorChain | StandardScaler

fun demo_is_base :: "demo_class \<Rightarrow> base \<Rightarrow> bool" where
  "demo_is_base PipelineClass b = (b = Pipeline)"
| "demo_is_base BaggingClassifier b = (b = Wrapper \<or> b = Classifier)"
| "demo_is_base LogisticRegression b = (b = Classifier)"
| "demo_is_base KNeighborsClassifier b = (b = Classifier \<or> b = MultiClassifier)"
| "demo_is_base LinearRegression b = (b = Regressor)"
| "demo_is_base RegressorChain b = (b = MultiOutputRegressor)"
| "demo_is_base StandardScaler b = False"

type_synonym demo_model = "(demo_class, nat) model"

type_synonym demo_store = "(demo_class, nat) store"

definition learn :: "demo_model \<Rightarrow> demo_model" where
  "learn m = Model (class_of m) (Suc (state m)) (final_estimator m) (inner_model m)"

definition demo_fit_one ::
  "demo_store \<Rightarrow> addr \<Rightarrow> int \<Rightarrow> bool \<Rightarrow> (demo_class, nat, addr \<times> int \<times> bool) call" where
  "demo_fit_one st self x y =
     (st\<lparr>objs := (objs st)(self := learn (objs st self))\<rparr>, Inr (self, x, y))"

definition demo_predict_proba_one ::
  "demo_store \<Rightarrow> addr \<Rightarrow> int \<Rightarrow> (demo_class, nat, (bool, real) pyval \<times> int) call" where
  "demo_predict_proba_one st self x =
     (st, Inr (PyDict [(False, 1 / 4), (True, 3 / 4)], x))"

definition demo_deepcopy :: "demo_store \<Rightarrow> addr \<Rightarrow> (demo_class, nat, addr) call" where
  "demo_deepcopy st obj =
     (st\<lparr>fresh := Suc (fresh st), objs := (objs st)(fresh st := objs st obj)\<rparr>,
      Inr (fresh st))"

definition demo_items :: "dataset \<Rightarrow> (int \<times> bool) list" where
  "demo_items d =
     (case source d of
        Phishing \<Rightarrow> [(3, True), (5, False)]
      | Iris \<Rightarrow> [(1, True)]
      | TrumpApproval \<Rightarrow> [(7, True), (2, True)]
      | Linnerud \<Rightarrow> [(4, False)])"

text \<open>
  Pickling writes the address of the object as a run of that many characters, and
  loading copies the object at that address.
\<close>

definition demo_library :: "(demo_class, nat, int, bool, bool, real) library" where
  "demo_library =
     \<lparr>issubclass = (=),
      is_base = demo_is_base,
      has_debug_one = (\<lambda>m. class_of m = LogisticRegression),
      fit_one = demo_fit_one,
      predict_one = (\<lambda>st self x. (st, Inr x)),
      predict_proba_one = demo_predict_proba_one,
      debug_one = (\<lambda>st self x. (st, Inr x)),
      py_repr = (\<lambda>st self. (st, Inr (PyStr ''Model()''))),
      py_str = (\<lambda>st self. (st, Inr (PyStr ''Model''))),
      get_tags = (\<lambda>st self. (st, Inr (PyDict []))),
      dumps = (\<lambda>st self. (st, Inr (replicate self CHR ''p''))),
      loads = (\<lambda>st pickled. demo_deepcopy st (length pickled)),
      deepcopy = demo_deepcopy,
      items = demo_items,
      one_shot = (\<lambda>d. source d = Iris \<or> source d = Linnerud),
      isclose = (\<lambda>a b. \<bar>a - b\<bar> \<le> max \<bar>a\<bar> \<bar>b\<bar> / 1000000000),
      fadd = (+),
      fle = (\<le>),
      fzero = 0,
      fone = 1,
      bool_key = (\<lambda>b. b)\<rparr>"



text \<open>The same library with models whose \<^verbatim>\<open>__deepcopy__\<close> returns the model itself.\<close>

definition selfcopy_library :: "(demo_class, nat, int, bool, bool, real) library" where
  "selfcopy_library = demo_library\<lparr>deepcopy := (\<lambda>st obj. (st, Inr obj))\<rparr>"

definition estimator :: "demo_class \<Rightarrow> demo_model" where
  "estimator c = Model c 0 (Inl ''AttributeError'') (Inl ''AttributeError'')"

text \<open>A pipeline whose final estimator is a wrapper around a logistic regression.\<close>

definition demo_pipeline :: demo_model where
  "demo_pipeline =
     Model PipelineClass 0
       (Inr (Model BaggingClassifier 0 (Inl ''AttributeError'')
               (Inr (estimator LogisticRegression))))
       (Inl ''AttributeError'')"

text \<open>The dataset object that \<^verbatim>\<open>yield_datasets\<close> creates first for a classifier.\<close>

definition phishing :: dataset where
  "phishing = Dataset 0 Phishing"


text \<open>
  A store whose only allocated object, at address 0, is the given model, and in which
  no pair has been taken from any dataset.
\<close>

definition demo_store :: "demo_model \<Rightarrow> demo_store" where
  "demo_store m = \<lparr>fresh = 1, objs = (\<lambda>a. m), taken = (\<lambda>d. 0)\<rparr>"

section \<open>Properties\<close>

subsection \<open>Unwrapping\<close>

lemma guess_model_unfold:
  "guess_model L model =
     (if is_base L (class_of model) Pipeline then
        (case final_estimator model of Inl e \<Rightarrow> Inl e | Inr m \<Rightarrow> guess_model L m)
      else if is_base L (class_of model) Wrapper then
        (case inner_model model of Inl e \<Rightarrow> Inl e | Inr m \<Rightarrow> guess_model L m)
      else Inr model)"
  by (cases model) simp

lemma guess_model_plain:
  "guess_model L model = Inr found \<Longrightarrow>
     \<not> is_base L (class_of found) Pipeline \<and> \<not> is_base L (class_of found) Wrapper"
  by (induction L model rule: guess_model.induct) (auto split: if_splits sum.splits)


lemmas demo_defs =
  demo_library_def demo_store_def estimator_def demo_pipeline_def demo_items_def
  demo_fit_one_def demo_predict_proba_one_def demo_deepcopy_def learn_def phishing_def

lemmas iteration_defs = pairs_of_def take_pair_def

text \<open>
  Claim C5. \<^verbatim>\<open>guess_model\<close> of a Pipeline is \<^verbatim>\<open>guess_model\<close> of its
  \<^verbatim>\<open>final_estimator\<close>; of a Wrapper that is no Pipeline, \<^verbatim>\<open>guess_model\<close> of its
  \<^verbatim>\<open>_model\<close>; of any other model, the model itself. An exception raised by reading
  the attribute is the outcome of the call. The model that \<^verbatim>\<open>guess_model\<close> returns is
  neither a Pipeline nor a Wrapper.
\<close>

theorem guess_model_unwraps:
  "guess_model L model =
     (if is_base L (class_of model) Pipeline then
        (case final_estimator model of Inl e \<Rightarrow> Inl e | Inr m \<Rightarrow> guess_model L m)
      else if is_base L (class_of model) Wrapper then
        (case inner_model model of Inl e \<Rightarrow> Inl e | Inr m \<Rightarrow> guess_model L m)
      else Inr model) \<and>
   (\<forall>found. guess_model L model = Inr found \<longrightarrow>
      \<not> is_base L (class_of found) Pipeline \<and> \<not> is_base L (class_of found) Wrapper)"
  using guess_model_unfold [of L model] guess_model_plain [of L model] by blast

theorem guess_model_unwraps_witness:
  "guess_model demo_library demo_pipeline = Inr (estimator LogisticRegression) \<and>
   \<not> is_base demo_library (class_of (estimator LogisticRegression)) Pipeline \<and>
   \<not> is_base demo_library (class_of (estimator LogisticRegression)) Wrapper"
proof -
  have found: "guess_model demo_library demo_pipeline = Inr (estimator LogisticRegression)"
    by (simp add: demo_defs)
  with guess_model_unwraps [of demo_library demo_pipeline] show ?thesis
    by blast
qed

subsection \<open>Datasets\<close>

text \<open>
  Claim C6. For a model that is a MultiOutputRegressor and nothing else,
  \<^verbatim>\<open>yield_datasets\<close> yields two streams over the linnerud data, not one: its
  last two \<^verbatim>\<open>if\<close> statements are the same.
\<close>

theorem yield_datasets_linnerud_twice:
  "yield_datasets demo_library (estimator RegressorChain) =
     ([Dataset 0 Linnerud, Dataset 1 Linnerud], None)"
  by (simp add: yield_datasets_def created_def enumerate_eq_zip demo_defs)

subsection \<open>Purity of update and coherent probabilities\<close>

lemma fit_loop_rounds_ok:
  "snd (check_fit_one_loop L dataset k st model ds) \<noteq> Inl AssertionError \<Longrightarrow>
     (given, left, sa, returned) \<in> set (fit_one_rounds L dataset st model ds) \<Longrightarrow>
     left = given \<and> isinstance L sa returned k"
proof (induction ds arbitrary: st model)
  case Nil
  then show ?case by simp
next
  case (Cons p ds)
  obtain x y where p: "p = (x, y)" by (cases p)
  obtain st1 r where f: "fit_one L (take_pair L dataset st) model x y = (st1, r)"
    by (cases "fit_one L (take_pair L dataset st) model x y")
  show ?case
  proof (cases r)
    case (Inl e)
    with Cons.prems p f show ?thesis by simp
  next
    case (Inr t)
    obtain model1 x1 y1 where t: "t = (model1, x1, y1)" by (cases t)
    from Cons.prems(1) p f Inr t
    have ok: "isinstance L st1 model1 k" "x1 = x" "y1 = y"
      and rest: "snd (check_fit_one_loop L dataset k st1 model1 ds) \<noteq> Inl AssertionError"
      by (auto split: if_splits)
    from Cons.prems(2) p f Inr t
    consider "(given, left, sa, returned) = ((x, y), (x1, y1), st1, model1)"
      | "(given, left, sa, returned) \<in> set (fit_one_rounds L dataset st1 model1 ds)"
      by auto
    then show ?thesis
    proof cases
      case 1
      with ok show ?thesis by simp
    next
      case 2
      with Cons.IH [OF rest] show ?thesis by simp
    qed
  qed
qed

lemma fit_loop_rounds_all:
  "snd (check_fit_one_loop L dataset k st model ds) = Inr () \<Longrightarrow>
     map fst (fit_one_rounds L dataset st model ds) = ds"
proof (induction ds arbitrary: st model)
  case Nil
  then show ?case by simp
next
  case (Cons p ds)
  obtain x y where p: "p = (x, y)" by (cases p)
  obtain st1 r where f: "fit_one L (take_pair L dataset st) model x y = (st1, r)"
    by (cases "fit_one L (take_pair L dataset st) model x y")
  show ?case
  proof (cases r)
    case (Inl e)
    with Cons.prems p f show ?thesis by simp
  next
    case (Inr t)
    obtain model1 x1 y1 where t: "t = (model1, x1, y1)" by (cases t)
    from Cons.prems p f Inr t
    have "snd (check_fit_one_loop L dataset k st1 model1 ds) = Inr ()"
      by (auto split: if_splits)
    from Cons.IH [OF this] p f Inr t show ?thesis by simp
  qed
qed

lemma proba_loop_rounds_ok:
  "snd (check_predict_proba_one_loop L dataset st classifier ds) \<noteq> Inl AssertionError \<Longrightarrow>
     (given, left, y_pred) \<in> set (predict_proba_one_rounds L dataset st classifier ds) \<Longrightarrow>
     left = given \<and> is_dict y_pred \<and>
     isclose L (py_sum L (dict_values y_pred)) (fone L) \<and>
     list_all (\<lambda>proba. fle L (fzero L) proba \<and> fle L proba (fone L)) (dict_values y_pred)"
proof (induction ds arbitrary: st classifier)
  case Nil
  then show ?case by simp
next
  case (Cons p ds)
  obtain x y where p: "p = (x, y)" by (cases p)
  obtain st1 r where f: "fit_one L (take_pair L dataset st) classifier x y = (st1, r)"
    by (cases "fit_one L (take_pair L dataset st) classifier x y")
  show ?case
  proof (cases r)
    case (Inl e)
    with Cons.prems p f show ?thesis by simp
  next
    case (Inr t)
    obtain classifier1 x1 y1 where t: "t = (classifier1, x1, y1)" by (cases t)
    obtain st2 q where g: "predict_proba_one L st1 classifier1 x1 = (st2, q)"
      by (cases "predict_proba_one L st1 classifier1 x1")
    show ?thesis
    proof (cases q)
      case (Inl e)
      with Cons.prems p f Inr t g show ?thesis by simp
    next
      case (Inr u)
      obtain v x2 where u: "u = (v, x2)" by (cases u)
      from Cons.prems(1) p f \<open>r = Inr t\<close> t g Inr u
      have ok: "is_dict v" "isclose L (py_sum L (dict_values v)) (fone L)"
        "list_all (\<lambda>proba. fle L (fzero L) proba \<and> fle L proba (fone L)) (dict_values v)"
        "x2 = x" "y1 = y"
        and rest: "snd (check_predict_proba_one_loop L dataset st2 classifier1 ds)
          \<noteq> Inl AssertionError"
        by (auto split: if_splits)
      from Cons.prems(2) p f \<open>r = Inr t\<close> t g Inr u
      consider "(given, left, y_pred) = ((x, y), (x2, y1), v)"
        | "(given, left, y_pred) \<in> set (predict_proba_one_rounds L dataset st2 classifier1 ds)"
        by auto
      then show ?thesis
      proof cases
        case 1
        with ok show ?thesis by simp
      next
        case 2
        with Cons.IH [OF rest] show ?thesis by simp
      qed
    qed
  qed
qed

lemma proba_loop_rounds_all:
  "snd (check_predict_proba_one_loop L dataset st classifier ds) = Inr () \<Longrightarrow>
     map fst (predict_proba_one_rounds L dataset st classifier ds) = ds"
proof (induction ds arbitrary: st classifier)
  case Nil
  then show ?case by simp
next
  case (Cons p ds)
  obtain x y where p: "p = (x, y)" by (cases p)
  obtain st1 r where f: "fit_one L (take_pair L dataset st) classifier x y = (st1, r)"
    by (cases "fit_one L (take_pair L dataset st) classifier x y")
  show ?case
  proof (cases r)
    case (Inl e)
    with Cons.prems p f show ?thesis by simp
  next
    case (Inr t)
    obtain classifier1 x1 y1 where t: "t = (classifier1, x1, y1)" by (cases t)
    obtain st2 q where g: "predict_proba_one L st1 classifier1 x1 = (st2, q)"
      by (cases "predict_proba_one L st1 classifier1 x1")
    show ?thesis
    proof (cases q)
      case (Inl e)
      with Cons.prems p f Inr t g show ?thesis by simp
    next
      case (Inr u)
      obtain v x2 where u: "u = (v, x2)" by (cases u)
      from Cons.prems p f \<open>r = Inr t\<close> t g Inr u
      have "snd (check_predict_proba_one_loop L dataset st2 classifier1 ds) = Inr ()"
        by (auto split: if_splits)
      from Cons.IH [OF this] p f \<open>r = Inr t\<close> t g Inr u show ?thesis by simp
    qed
  qed
qed

text \<open>
  Claim C1. When \<^verbatim>\<open>check_fit_one\<close> raises no \<^verbatim>\<open>AssertionError\<close>, every call
  \<^verbatim>\<open>fit_one(x, y)\<close> it made left \<open>x\<close> and \<open>y\<close> equal to their copies taken before
  the call and returned an instance of the class that the model had when the check
  began; when it returns, it made the call for every pair of the dataset. When
  \<^verbatim>\<open>check_predict_proba_one\<close> raises no \<^verbatim>\<open>AssertionError\<close>, every pair is equal to
  its copy after \<^verbatim>\<open>fit_one\<close> and \<^verbatim>\<open>predict_proba_one\<close> have been called on it.
\<close>

theorem check_fit_one_inputs_unchanged:
  "(snd (check_fit_one L st model dataset) \<noteq> Inl AssertionError \<longrightarrow>
      (\<forall>(given, left, sa, returned) \<in>
            set (fit_one_rounds L dataset st model (pairs_of L st dataset)).
         left = given \<and> isinstance L sa returned (class_of (objs st model)))) \<and>
   (snd (check_fit_one L st model dataset) = Inr () \<longrightarrow>
      map fst (fit_one_rounds L dataset st model (pairs_of L st dataset))
        = pairs_of L st dataset) \<and>
   (snd (check_predict_proba_one L st model dataset) \<noteq> Inl AssertionError \<longrightarrow>
      (\<forall>(given, left, y_pred) \<in>
            set (predict_proba_one_rounds L dataset st model (pairs_of L st dataset)).
         left = given)) \<and>
   (snd (check_predict_proba_one L st model dataset) = Inr () \<longrightarrow>
      map fst (predict_proba_one_rounds L dataset st model (pairs_of L st dataset))
        = pairs_of L st dataset)"
proof (intro conjI impI)
  assume "snd (check_fit_one L st model dataset) \<noteq> Inl AssertionError"
  then have "snd (check_fit_one_loop L dataset (class_of (objs st model)) st model
      (pairs_of L st dataset))
      \<noteq> Inl AssertionError"
    by (simp add: check_fit_one_def)
  from fit_loop_rounds_ok [OF this]
  show "\<forall>(given, left, sa, returned) \<in>
          set (fit_one_rounds L dataset st model (pairs_of L st dataset)).
          left = given \<and> isinstance L sa returned (class_of (objs st model))"
    by blast
next
  assume "snd (check_fit_one L st model dataset) = Inr ()"
  then show "map fst (fit_one_rounds L dataset st model (pairs_of L st dataset))
      = pairs_of L st dataset"
    by (simp add: check_fit_one_def fit_loop_rounds_all)
next
  assume "snd (check_predict_proba_one L st model dataset) \<noteq> Inl AssertionError"
  then have "snd (check_predict_proba_one_loop L dataset st model (pairs_of L st dataset))
      \<noteq> Inl AssertionError"
    by (simp add: check_predict_proba_one_def)
  from proba_loop_rounds_ok [OF this]
  show "\<forall>(given, left, y_pred) \<in>
          set (predict_proba_one_rounds L dataset st model (pairs_of L st dataset)).
          left = given"
    by blast
next
  assume "snd (check_predict_proba_one L st model dataset) = Inr ()"
  then show "map fst (predict_proba_one_rounds L dataset st model (pairs_of L st dataset))
      = pairs_of L st dataset"
    by (simp add: check_predict_proba_one_def proba_loop_rounds_all)
qed

theorem check_fit_one_inputs_unchanged_witness:
  "snd (check_fit_one demo_library (demo_store (estimator LogisticRegression)) 0 phishing)
     = Inr () \<and>
   snd (check_predict_proba_one demo_library (demo_store (estimator LogisticRegression)) 0
          phishing) = Inr () \<and>
   pairs_of demo_library
     (demo_store (estimator LogisticRegression)) phishing = [(3, True), (5, False)] \<and>
   map fst (fit_one_rounds demo_library phishing (demo_store (estimator LogisticRegression)) 0
              (pairs_of demo_library
     (demo_store (estimator LogisticRegression)) phishing)) = pairs_of demo_library
     (demo_store (estimator LogisticRegression)) phishing \<and>
   map fst (predict_proba_one_rounds demo_library phishing
              (demo_store (estimator LogisticRegression))
              0 (pairs_of demo_library
     (demo_store (estimator LogisticRegression)) phishing)) = pairs_of demo_library
     (demo_store (estimator LogisticRegression)) phishing \<and>
   list_all
     (\<lambda>(given, left, sa, returned).
        left = given \<and>
        isinstance demo_library sa returned
          (class_of (objs (demo_store (estimator LogisticRegression)) 0)))
     (fit_one_rounds demo_library phishing (demo_store (estimator LogisticRegression)) 0
        (pairs_of demo_library
     (demo_store (estimator LogisticRegression)) phishing)) \<and>
   list_all (\<lambda>(given, left, y_pred). left = given)
     (predict_proba_one_rounds demo_library phishing (demo_store (estimator LogisticRegression)) 0
        (pairs_of demo_library
     (demo_store (estimator LogisticRegression)) phishing))"
proof -
  have fit: "snd (check_fit_one demo_library (demo_store (estimator LogisticRegression)) 0
      phishing) = Inr ()"
    by (simp add: check_fit_one_def isinstance_def iteration_defs demo_defs)
  have proba: "snd (check_predict_proba_one demo_library
      (demo_store (estimator LogisticRegression)) 0 phishing) = Inr ()"
    by (simp add: check_predict_proba_one_def py_sum_def iteration_defs demo_defs)
  have pairs: "pairs_of demo_library
     (demo_store (estimator LogisticRegression)) phishing = [(3, True), (5, False)]"
    by (simp add: iteration_defs demo_defs)
  have no_assert: "snd (check_fit_one demo_library (demo_store (estimator LogisticRegression))
      0 phishing) \<noteq> Inl AssertionError"
    "snd (check_predict_proba_one demo_library (demo_store (estimator LogisticRegression))
      0 phishing) \<noteq> Inl AssertionError"
    using fit proba by simp_all
  note inst = check_fit_one_inputs_unchanged
    [of demo_library "demo_store (estimator LogisticRegression)" 0 phishing]
  note fit_ok = inst [THEN conjunct1, THEN mp, OF no_assert(1), unfolded Ball_set]
  note fit_all = inst [THEN conjunct2, THEN conjunct1, THEN mp, OF fit]
  note proba_ok = inst [THEN conjunct2, THEN conjunct2, THEN conjunct1, THEN mp,
    OF no_assert(2), unfolded Ball_set]
  note proba_all = inst [THEN conjunct2, THEN conjunct2, THEN conjunct2, THEN mp, OF proba]
  from fit proba pairs fit_all proba_all fit_ok proba_ok show ?thesis
    by (intro conjI)
qed

text \<open>
  Claim C2. When \<^verbatim>\<open>check_predict_proba_one\<close> raises no \<^verbatim>\<open>AssertionError\<close>, every
  prediction that \<^verbatim>\<open>predict_proba_one(x)\<close> returned, called after \<^verbatim>\<open>fit_one(x, y)\<close>,
  is a dictionary whose values sum (as \<^verbatim>\<open>sum\<close> adds them) to a number that
  \<^verbatim>\<open>math.isclose\<close> accepts as close to 1, and each value is between 0 and 1
  inclusive; when the check returns, there is such a prediction for every pair of the
  dataset.
\<close>

theorem check_predict_proba_one_coherent:
  "(snd (check_predict_proba_one L st classifier dataset) \<noteq> Inl AssertionError \<longrightarrow>
      (\<forall>(given, left, y_pred) \<in>
            set (predict_proba_one_rounds L dataset st classifier (pairs_of L st dataset)).
         \<exists>d. y_pred = PyDict d \<and>
             isclose L (py_sum L (map snd d)) (fone L) \<and>
             (\<forall>proba \<in> set (map snd d). fle L (fzero L) proba \<and> fle L proba (fone L)))) \<and>
   (snd (check_predict_proba_one L st classifier dataset) = Inr () \<longrightarrow>
      map fst (predict_proba_one_rounds L dataset st classifier (pairs_of L st dataset))
        = pairs_of L st dataset)"
proof (intro conjI impI)
  assume "snd (check_predict_proba_one L st classifier dataset) \<noteq> Inl AssertionError"
  then have ok: "snd (check_predict_proba_one_loop L dataset st classifier (pairs_of L st dataset))
      \<noteq> Inl AssertionError"
    by (simp add: check_predict_proba_one_def)
  show "\<forall>(given, left, y_pred) \<in>
            set (predict_proba_one_rounds L dataset st classifier (pairs_of L st dataset)).
         \<exists>d. y_pred = PyDict d \<and>
             isclose L (py_sum L (map snd d)) (fone L) \<and>
             (\<forall>proba \<in> set (map snd d). fle L (fzero L) proba \<and> fle L proba (fone L))"
  proof (clarify)
    fix gx gy lx ly y_pred
    assume "((gx, gy), (lx, ly), y_pred)
      \<in> set (predict_proba_one_rounds L dataset st classifier (pairs_of L st dataset))"
    from proba_loop_rounds_ok [OF ok this]
    have d: "is_dict y_pred"
      and c: "isclose L (py_sum L (dict_values y_pred)) (fone L)"
      and r: "list_all (\<lambda>proba. fle L (fzero L) proba \<and> fle L proba (fone L))
                (dict_values y_pred)"
      by simp_all
    from d obtain d' where "y_pred = PyDict d'" by (cases y_pred) simp_all
    with c r show "\<exists>d. y_pred = PyDict d \<and>
             isclose L (py_sum L (map snd d)) (fone L) \<and>
             (\<forall>proba \<in> set (map snd d). fle L (fzero L) proba \<and> fle L proba (fone L))"
      by (simp add: list_all_iff)
  qed
next
  assume "snd (check_predict_proba_one L st classifier dataset) = Inr ()"
  then show "map fst (predict_proba_one_rounds L dataset st classifier (pairs_of L st dataset))
      = pairs_of L st dataset"
    by (simp add: check_predict_proba_one_def proba_loop_rounds_all)
qed

theorem check_predict_proba_one_coherent_witness:
  "snd (check_predict_proba_one demo_library (demo_store (estimator LogisticRegression)) 0
          phishing) = Inr () \<and>
   pairs_of demo_library
     (demo_store (estimator LogisticRegression)) phishing = [(3, True), (5, False)] \<and>
   map fst (predict_proba_one_rounds demo_library phishing
          (demo_store (estimator LogisticRegression)) 0 (pairs_of demo_library
     (demo_store (estimator LogisticRegression)) phishing))
     = pairs_of demo_library
     (demo_store (estimator LogisticRegression)) phishing \<and>
   list_all
     (\<lambda>(given, left, y_pred).
        \<exists>d. y_pred = PyDict d \<and>
          isclose demo_library (py_sum demo_library (map snd d)) (fone demo_library) \<and>
          list_all
            (\<lambda>proba. fle demo_library (fzero demo_library) proba \<and>
               fle demo_library proba (fone demo_library))
            (map snd d))
     (predict_proba_one_rounds demo_library phishing (demo_store (estimator LogisticRegression)) 0
        (pairs_of demo_library
     (demo_store (estimator LogisticRegression)) phishing))"
proof -
  have proba: "snd (check_predict_proba_one demo_library
      (demo_store (estimator LogisticRegression)) 0 phishing) = Inr ()"
    by (simp add: check_predict_proba_one_def py_sum_def iteration_defs demo_defs)
  have pairs: "pairs_of demo_library
     (demo_store (estimator LogisticRegression)) phishing = [(3, True), (5, False)]"
    by (simp add: iteration_defs demo_defs)
  have no_assert: "snd (check_predict_proba_one demo_library
      (demo_store (estimator LogisticRegression)) 0 phishing) \<noteq> Inl AssertionError"
    using proba by simp
  note inst = check_predict_proba_one_coherent
    [of demo_library "demo_store (estimator LogisticRegression)" 0 phishing]
  note coherent = inst [THEN conjunct1, THEN mp, OF no_assert, unfolded Ball_set]
  note every = inst [THEN conjunct2, THEN mp, OF proba]
  from proba pairs every coherent show ?thesis
    by (intro conjI)
qed

subsection \<open>Pickling\<close>

lemma assert_pickles_passes:
  "snd (assert_pickles L st model) = Inr () \<Longrightarrow>
     \<exists>sa pickled sb loaded.
       dumps L st model = (sa, Inr pickled) \<and> loads L sa pickled = (sb, Inr loaded) \<and>
       isinstance L sb loaded (class_of (objs sb model)) \<and>
       assert_pickles L st model = (sb, Inr ())"
  by (auto simp: assert_pickles_def split: prod.splits sum.splits if_splits)

text \<open>Every round of the replay is a pair of calls that returned.\<close>

lemma pickling_rounds_calls:
  "((x, y), s0, (s1, x1), s2) \<in> set (check_pickling_rounds L dataset st model ds) \<Longrightarrow>
     predict_one L s0 model x = (s1, Inr x1) \<and>
     (\<exists>returned x2 y2. fit_one L s1 model x1 y = (s2, Inr (returned, x2, y2)))"
proof (induction ds arbitrary: st)
  case Nil
  then show ?case by simp
next
  case (Cons p ds)
  obtain a b where p: "p = (a, b)" by (cases p)
  obtain st1 r where c: "predict_one L (take_pair L dataset st) model a = (st1, r)"
    by (cases "predict_one L (take_pair L dataset st) model a")
  show ?case
  proof (cases r)
    case (Inl e)
    with Cons.prems p c show ?thesis by simp
  next
    case (Inr a1)
    obtain st2 q where f: "fit_one L st1 model a1 b = (st2, q)"
      by (cases "fit_one L st1 model a1 b")
    show ?thesis
    proof (cases q)
      case (Inl e)
      with Cons.prems p c \<open>r = Inr a1\<close> f show ?thesis by simp
    next
      case (Inr t)
      obtain returned a2 b2 where t: "t = (returned, a2, b2)" by (cases t)
      from Cons.prems p c \<open>r = Inr a1\<close> f Inr t
      consider "((x, y), s0, (s1, x1), s2) = ((a, b), take_pair L dataset st, (st1, a1), st2)"
        | "((x, y), s0, (s1, x1), s2) \<in> set (check_pickling_rounds L dataset st2 model ds)"
        by auto
      then show ?thesis
      proof cases
        case 1
        with c \<open>r = Inr a1\<close> f Inr t show ?thesis by auto
      next
        case 2
        from Cons.IH [OF this] show ?thesis .
      qed
    qed
  qed
qed

text \<open>
  When the loop returns, the replay has a round for every pair, and the loop ends in
  the store that the last \<^verbatim>\<open>fit_one\<close> left.
\<close>

lemma pickling_loop_rounds:
  "snd (check_pickling_loop L dataset st model ds) = Inr () \<Longrightarrow>
     map fst (check_pickling_rounds L dataset st model ds) = ds \<and>
     fst (check_pickling_loop L dataset st model ds) =
       last (st # map (\<lambda>(p, s0, sx, s2). s2) (check_pickling_rounds L dataset st model ds))"
proof (induction ds arbitrary: st)
  case Nil
  then show ?case by simp
next
  case (Cons p ds)
  obtain a b where p: "p = (a, b)" by (cases p)
  obtain st1 r where c: "predict_one L (take_pair L dataset st) model a = (st1, r)"
    by (cases "predict_one L (take_pair L dataset st) model a")
  from Cons.prems p c obtain a1 where r: "r = Inr a1"
    by (cases r) auto
  obtain st2 q where f: "fit_one L st1 model a1 b = (st2, q)"
    by (cases "fit_one L st1 model a1 b")
  from Cons.prems p c r f obtain t where q: "q = Inr t"
    by (cases q) auto
  obtain returned a2 b2 where t: "t = (returned, a2, b2)" by (cases t)
  from Cons.prems p c r f q t
  have "snd (check_pickling_loop L dataset st2 model ds) = Inr ()"
    by simp
  from Cons.IH [OF this] p c r f q t show ?case
    by simp
qed

text \<open>
  Claim C4. When \<^verbatim>\<open>check_pickling\<close> returns, \<^verbatim>\<open>pickle.loads(pickle.dumps(model))\<close>
  gave an instance of the class of the model before the loop; then, for every pair
  that the dataset gave, \<^verbatim>\<open>model.predict_one(x)\<close> and \<^verbatim>\<open>model.fit_one(x, y)\<close> were
  called on the model, in this order, each in the store that the call before it left,
  and returned; and \<^verbatim>\<open>pickle.loads(pickle.dumps(model))\<close>, evaluated in the store that
  the last of these calls left, gave an instance of the class of the model again.
\<close>

theorem check_pickling_round_trip:
  "snd (check_pickling L st model dataset) = Inr () \<Longrightarrow>
     \<exists>sa pickled sb loaded sc sd pickled1 se loaded1.
       dumps L st model = (sa, Inr pickled) \<and>
       loads L sa pickled = (sb, Inr loaded) \<and>
       isinstance L sb loaded (class_of (objs sb model)) \<and>
       map fst (check_pickling_rounds L dataset sb model (pairs_of L sb dataset))
         = pairs_of L sb dataset \<and>
       (\<forall>((x, y), s0, (s1, x1), s2) \<in>
            set (check_pickling_rounds L dataset sb model (pairs_of L sb dataset)).
          predict_one L s0 model x = (s1, Inr x1) \<and>
          (\<exists>returned x2 y2. fit_one L s1 model x1 y = (s2, Inr (returned, x2, y2)))) \<and>
       sc = last (sb # map (\<lambda>(p, s0, sx, s2). s2)
                          (check_pickling_rounds L dataset sb model (pairs_of L sb dataset))) \<and>
       check_pickling_loop L dataset sb model (pairs_of L sb dataset) = (sc, Inr ()) \<and>
       dumps L sc model = (sd, Inr pickled1) \<and>
       loads L sd pickled1 = (se, Inr loaded1) \<and>
       isinstance L se loaded1 (class_of (objs se model))"
proof -
  assume pass: "snd (check_pickling L st model dataset) = Inr ()"
  obtain sb r1 where first: "assert_pickles L st model = (sb, r1)"
    by (cases "assert_pickles L st model")
  obtain sc r2 where loop:
    "check_pickling_loop L dataset sb model (pairs_of L sb dataset) = (sc, r2)"
    by (cases "check_pickling_loop L dataset sb model (pairs_of L sb dataset)")
  from pass first have r1: "r1 = Inr ()"
    by (cases r1) (simp_all add: check_pickling_def)
  from pass first r1 loop have r2: "r2 = Inr ()"
    by (cases r2) (simp_all add: check_pickling_def)
  from pass first r1 loop r2 have last: "snd (assert_pickles L sc model) = Inr ()"
    by (simp add: check_pickling_def)
  from first r1 have "snd (assert_pickles L st model) = Inr ()"
    by simp
  from assert_pickles_passes [OF this] first obtain sa pickled loaded where
    before: "dumps L st model = (sa, Inr pickled)" "loads L sa pickled = (sb, Inr loaded)"
      "isinstance L sb loaded (class_of (objs sb model))"
    by auto
  from assert_pickles_passes [OF last] obtain sd pickled1 se loaded1 where
    after: "dumps L sc model = (sd, Inr pickled1)" "loads L sd pickled1 = (se, Inr loaded1)"
      "isinstance L se loaded1 (class_of (objs se model))"
    by auto
  from loop r2 have "snd (check_pickling_loop L dataset sb model (pairs_of L sb dataset))
      = Inr ()"
    by simp
  from pickling_loop_rounds [OF this] loop
  have rounds: "map fst (check_pickling_rounds L dataset sb model (pairs_of L sb dataset))
      = pairs_of L sb dataset"
    and store: "sc = last (sb # map (\<lambda>(p, s0, sx, s2). s2)
      (check_pickling_rounds L dataset sb model (pairs_of L sb dataset)))"
    by simp_all
  have calls: "\<forall>((x, y), s0, (s1, x1), s2) \<in>
       set (check_pickling_rounds L dataset sb model (pairs_of L sb dataset)).
     predict_one L s0 model x = (s1, Inr x1) \<and>
     (\<exists>returned x2 y2. fit_one L s1 model x1 y = (s2, Inr (returned, x2, y2)))"
    using pickling_rounds_calls [of _ _ _ _ _ _ L dataset sb model "pairs_of L sb dataset"]
    by blast
  from before rounds calls store loop r2 after show ?thesis
    by blast
qed

lemma pickling_demo_passes:
  "snd (check_pickling demo_library (demo_store (estimator LogisticRegression)) 0 phishing)
     = Inr ()"
  by (simp add: check_pickling_def assert_pickles_def isinstance_def iteration_defs demo_defs)

theorem check_pickling_round_trip_witness:
  "snd (check_pickling demo_library (demo_store (estimator LogisticRegression)) 0 phishing)
     = Inr () \<and>
   pairs_of demo_library (demo_store (estimator LogisticRegression)) phishing
     = [(3, True), (5, False)] \<and>
   (\<exists>sa pickled sb loaded sc sd pickled1 se loaded1.
       dumps demo_library (demo_store (estimator LogisticRegression)) 0 = (sa, Inr pickled) \<and>
       loads demo_library sa pickled = (sb, Inr loaded) \<and>
       isinstance demo_library sb loaded (class_of (objs sb 0)) \<and>
       map fst (check_pickling_rounds demo_library phishing sb 0
                  (pairs_of demo_library sb phishing))
         = pairs_of demo_library sb phishing \<and>
       (\<forall>((x, y), s0, (s1, x1), s2) \<in>
            set (check_pickling_rounds demo_library phishing sb 0
                   (pairs_of demo_library sb phishing)).
          predict_one demo_library s0 0 x = (s1, Inr x1) \<and>
          (\<exists>returned x2 y2. fit_one demo_library s1 0 x1 y = (s2, Inr (returned, x2, y2)))) \<and>
       sc = last (sb # map (\<lambda>(p, s0, sx, s2). s2)
                          (check_pickling_rounds demo_library phishing sb 0
                             (pairs_of demo_library sb phishing))) \<and>
       check_pickling_loop demo_library phishing sb 0 (pairs_of demo_library sb phishing)
         = (sc, Inr ()) \<and>
       dumps demo_library sc 0 = (sd, Inr pickled1) \<and>
       loads demo_library sd pickled1 = (se, Inr loaded1) \<and>
       isinstance demo_library se loaded1 (class_of (objs se 0)))"
proof -
  have pairs: "pairs_of demo_library (demo_store (estimator LogisticRegression)) phishing
     = [(3, True), (5, False)]"
    by (simp add: iteration_defs demo_defs)
  from pickling_demo_passes pairs check_pickling_round_trip [OF pickling_demo_passes]
  show ?thesis
    by (intro conjI)
qed

subsection \<open>String representations and tags\<close>

lemma yield_checks_starts:
  "\<exists>rest. fst (yield_checks L model) =
     check_repr_fn L # check_str_fn L # check_get_tags_fn L # rest"
  by (simp add: yield_checks_def split: prod.splits)

text \<open>
  Claim C9. \<^verbatim>\<open>check_repr\<close> returns only if \<^verbatim>\<open>repr(model)\<close> is a string,
  \<^verbatim>\<open>check_str\<close> only if \<^verbatim>\<open>str(model)\<close> is a string, and \<^verbatim>\<open>check_get_tags\<close> only if
  \<^verbatim>\<open>model._get_tags()\<close> is a dictionary. For every library and every model,
  whatever its classes and its datasets, \<^verbatim>\<open>yield_checks\<close> yields these three
  functions, first and in this order.
\<close>

theorem string_checks_always_yielded:
  "(snd (check_repr L st obj) = Inr () \<longrightarrow> (\<exists>s. snd (py_repr L st obj) = Inr (PyStr s))) \<and>
   (snd (check_str L st obj) = Inr () \<longrightarrow> (\<exists>s. snd (py_str L st obj) = Inr (PyStr s))) \<and>
   (snd (check_get_tags L st obj) = Inr () \<longrightarrow>
      (\<exists>d. snd (get_tags L st obj) = Inr (PyDict d))) \<and>
   (\<exists>rest. fst (yield_checks L model) =
      check_repr_fn L # check_str_fn L # check_get_tags_fn L # rest) \<and>
   run (check_repr_fn L) = check_repr L \<and> name (check_repr_fn L) = ''check_repr'' \<and>
   run (check_str_fn L) = check_str L \<and> name (check_str_fn L) = ''check_str'' \<and>
   run (check_get_tags_fn L) = check_get_tags L \<and>
   name (check_get_tags_fn L) = ''check_get_tags''"
proof (intro conjI impI)
  assume "snd (check_repr L st obj) = Inr ()"
  then show "\<exists>s. snd (py_repr L st obj) = Inr (PyStr s)"
    by (cases "py_repr L st obj")
      (auto simp: check_repr_def split: sum.splits if_splits elim: is_str.elims)
next
  assume "snd (check_str L st obj) = Inr ()"
  then show "\<exists>s. snd (py_str L st obj) = Inr (PyStr s)"
    by (cases "py_str L st obj")
      (auto simp: check_str_def split: sum.splits if_splits elim: is_str.elims)
next
  assume "snd (check_get_tags L st obj) = Inr ()"
  then show "\<exists>d. snd (get_tags L st obj) = Inr (PyDict d)"
    by (cases "get_tags L st obj")
      (auto simp: check_get_tags_def split: sum.splits if_splits elim: is_dict.elims)
next
  show "\<exists>rest. fst (yield_checks L model) =
      check_repr_fn L # check_str_fn L # check_get_tags_fn L # rest"
    by (rule yield_checks_starts)
qed (simp_all add: check_repr_fn_def check_str_fn_def check_get_tags_fn_def)

theorem string_checks_always_yielded_witness:
  "snd (check_repr demo_library (demo_store (estimator StandardScaler)) 0) = Inr () \<and>
   snd (check_str demo_library (demo_store (estimator StandardScaler)) 0) = Inr () \<and>
   snd (check_get_tags demo_library (demo_store (estimator StandardScaler)) 0) = Inr () \<and>
   (\<exists>s. snd (py_repr demo_library (demo_store (estimator StandardScaler)) 0)
      = Inr (PyStr s)) \<and>
   (\<exists>s. snd (py_str demo_library (demo_store (estimator StandardScaler)) 0)
      = Inr (PyStr s)) \<and>
   (\<exists>d. snd (get_tags demo_library (demo_store (estimator StandardScaler)) 0)
      = Inr (PyDict d)) \<and>
   fst (yield_checks demo_library (estimator StandardScaler)) =
     [check_repr_fn demo_library, check_str_fn demo_library, check_get_tags_fn demo_library]"
proof -
  have passes:
    "snd (check_repr demo_library (demo_store (estimator StandardScaler)) 0) = Inr ()"
    "snd (check_str demo_library (demo_store (estimator StandardScaler)) 0) = Inr ()"
    "snd (check_get_tags demo_library (demo_store (estimator StandardScaler)) 0) = Inr ()"
    by (simp_all add: check_repr_def check_str_def check_get_tags_def demo_defs)
  have only: "fst (yield_checks demo_library (estimator StandardScaler)) =
     [check_repr_fn demo_library, check_str_fn demo_library, check_get_tags_fn demo_library]"
    by (simp add: yield_checks_def yield_datasets_def created_def demo_defs)
  note inst = string_checks_always_yielded
    [of demo_library "demo_store (estimator StandardScaler)" 0 "estimator StandardScaler"]
  note a = inst [THEN conjunct1, THEN mp, OF passes(1)]
  note b = inst [THEN conjunct2, THEN conjunct1, THEN mp, OF passes(2)]
  note c = inst [THEN conjunct2, THEN conjunct2, THEN conjunct1, THEN mp, OF passes(3)]
  from passes a b c only show ?thesis
    by (intro conjI)
qed

subsection \<open>Which checks are yielded\<close>

lemma with_dataset_simps:
  "name (with_dataset L dataset method) = fn_name method"
  "kw_dataset (with_dataset L dataset method) = Some dataset"
  "run (with_dataset L dataset method) = (\<lambda>st model. check_fit_one L st model dataset)"
  by (simp_all add: with_dataset_def)

lemmas fn_defs =
  check_fit_one_fn_def check_pickling_fn_def check_debug_one_fn_def
  check_predict_proba_one_fn_def check_predict_proba_one_binary_fn_def
  check_repr_fn_def check_str_fn_def check_get_tags_fn_def


lemma yield_checks_unfold:
  "fst (yield_checks L model) =
     [check_repr_fn L, check_str_fn L, check_get_tags_fn L] @
     fst (yield_checks_loop L model (fst (yield_datasets L model)))"
  by (simp add: yield_checks_def split: prod.splits)






subsection \<open>What the dataset checks run\<close>

lemma loop_checks_are_bound:
  "check \<in> set (fst (yield_checks_loop L model datasets)) \<Longrightarrow>
     \<exists>dataset \<in> set datasets. \<exists>method. check = with_dataset L dataset method"
proof (induction datasets arbitrary: model)
  case Nil
  then show ?case by simp
next
  case (Cons d datasets)
  show ?case
  proof (cases "guess_model L model")
    case (Inl e)
    with Cons.prems show ?thesis
      by (auto split: if_splits)
  next
    case (Inr model1)
    obtain later err where rest: "yield_checks_loop L model1 datasets = (later, err)"
      by (cases "yield_checks_loop L model1 datasets")
    from Cons.prems Inr rest
    consider "\<exists>method. check = with_dataset L d method" | "check \<in> set later"
      by (auto split: if_splits)
    then show ?thesis
    proof cases
      case 1
      then show ?thesis by auto
    next
      case 2
      with rest have "check \<in> set (fst (yield_checks_loop L model1 datasets))" by simp
      from Cons.IH [OF this] show ?thesis by auto
    qed
  qed
qed

text \<open>Two libraries that agree on what \<^verbatim>\<open>check_estimator\<close> uses give the same run.\<close>

lemma guess_model_agree:
  "is_base L1 = is_base L \<Longrightarrow> guess_model L1 model = guess_model L model"
  by (induction L model rule: guess_model.induct) (simp split: sum.splits)

lemma check_fit_one_loop_agree:
  "fit_one L1 = fit_one L \<Longrightarrow> issubclass L1 = issubclass L \<Longrightarrow>
     one_shot L1 = one_shot L \<Longrightarrow>
     check_fit_one_loop L1 dataset k st model ds = check_fit_one_loop L dataset k st model ds"
proof (induction ds arbitrary: st model)
  case Nil
  then show ?case by simp
next
  case (Cons p ds)
  obtain x y where p: "p = (x, y)" by (cases p)
  from Cons show ?case
    by (simp add: p isinstance_def take_pair_def split: prod.splits sum.splits)
qed

lemma check_fit_one_agree:
  assumes "fit_one L1 = fit_one L" and "issubclass L1 = issubclass L"
    and "one_shot L1 = one_shot L" and "items L1 = items L"
  shows "check_fit_one L1 = check_fit_one L"
  by (intro ext)
    (simp add: check_fit_one_def check_fit_one_loop_agree [OF assms(1,2,3)] assms(3,4)
      pairs_of_def)

lemma with_dataset_agree:
  "check_fit_one L1 = check_fit_one L \<Longrightarrow> fn_name method1 = fn_name method \<Longrightarrow>
     with_dataset L1 dataset method1 = with_dataset L dataset method"
  by (simp add: with_dataset_def)

lemma yield_checks_loop_agree:
  assumes "is_base L1 = is_base L" and "has_debug_one L1 = has_debug_one L"
    and "check_fit_one L1 = check_fit_one L"
  shows "yield_checks_loop L1 model datasets = yield_checks_loop L model datasets"
proof (induction datasets arbitrary: model)
  case Nil
  show ?case by simp
next
  case (Cons d datasets)
  have bound: "with_dataset L1 d (check_fit_one_fn L1) = with_dataset L d (check_fit_one_fn L)"
    "with_dataset L1 d (check_pickling_fn L1) = with_dataset L d (check_pickling_fn L)"
    "with_dataset L1 d (check_debug_one_fn L1) = with_dataset L d (check_debug_one_fn L)"
    "with_dataset L1 d (check_predict_proba_one_fn L1)
       = with_dataset L d (check_predict_proba_one_fn L)"
    "with_dataset L1 d (check_predict_proba_one_binary_fn L1)
       = with_dataset L d (check_predict_proba_one_binary_fn L)"
    by (rule with_dataset_agree [OF assms(3)], simp add: fn_defs)+
  show ?case
  proof (cases "guess_model L model")
    case (Inl e)
    then show ?thesis
      by (simp add: bound assms(2) guess_model_agree [OF assms(1)])
  next
    case (Inr model1)
    then show ?thesis
      by (simp add: bound assms(1,2) guess_model_agree [OF assms(1)] Cons.IH)
  qed
qed

lemma for_checks_agree:
  "deepcopy L1 = deepcopy L \<Longrightarrow> for_checks L1 st model checks = for_checks L st model checks"
  by (induction checks arbitrary: st) (simp_all split: prod.splits sum.splits)

lemma check_estimator_agree:
  assumes "is_base L1 = is_base L" and "has_debug_one L1 = has_debug_one L"
    and "fit_one L1 = fit_one L" and "issubclass L1 = issubclass L"
    and "items L1 = items L" and "deepcopy L1 = deepcopy L"
    and "py_repr L1 = py_repr L" and "py_str L1 = py_str L" and "get_tags L1 = get_tags L"
    and "one_shot L1 = one_shot L"
  shows "check_estimator L1 st model = check_estimator L st model"
proof -
  have fit: "check_fit_one L1 = check_fit_one L"
    using assms(3,4,10,5) by (rule check_fit_one_agree)
  have datasets: "yield_datasets L1 (objs st model) = yield_datasets L (objs st model)"
    by (simp add: yield_datasets_def guess_model_agree [OF assms(1)] assms(1)
        split: sum.splits)
  have plain: "check_repr_fn L1 = check_repr_fn L" "check_str_fn L1 = check_str_fn L"
    "check_get_tags_fn L1 = check_get_tags_fn L"
    by (simp_all add: fn_defs check_repr_def check_str_def check_get_tags_def assms(7,8,9)
        fun_eq_iff)
  have "yield_checks L1 (objs st model) = yield_checks L (objs st model)"
    by (simp add: yield_checks_def datasets plain
        yield_checks_loop_agree [OF assms(1,2) fit])
  then show ?thesis
    by (simp add: check_estimator_def for_checks_agree [OF assms(6)])
qed

text \<open>
  Claim C3. Whatever function is passed to it, \<^verbatim>\<open>with_dataset\<close> gives a check that
  runs \<^verbatim>\<open>check_fit_one\<close> on the dataset and has the name of the function passed.
  Every check that \<^verbatim>\<open>yield_checks\<close> yields under the name \<^verbatim>\<open>check_pickling\<close>,
  \<^verbatim>\<open>check_debug_one\<close>, \<^verbatim>\<open>check_predict_proba_one\<close> or
  \<^verbatim>\<open>check_predict_proba_one_binary\<close> runs \<^verbatim>\<open>check_fit_one\<close> on one of the yielded
  datasets. What \<^verbatim>\<open>check_estimator\<close> does is the same whatever \<^verbatim>\<open>predict_one\<close>,
  \<^verbatim>\<open>predict_proba_one\<close>, \<^verbatim>\<open>debug_one\<close>, \<^verbatim>\<open>pickle.dumps\<close> and \<^verbatim>\<open>pickle.loads\<close> do:
  the bodies that call them are never run.
\<close>

theorem with_dataset_runs_check_fit_one:
  "(\<forall>dataset method.
      run (with_dataset L dataset method) = (\<lambda>st obj. check_fit_one L st obj dataset) \<and>
      name (with_dataset L dataset method) = fn_name method) \<and>
   (\<forall>check \<in> set (fst (yield_checks L model)).
      name check \<in> {''check_pickling'', ''check_debug_one'', ''check_predict_proba_one'',
        ''check_predict_proba_one_binary''} \<longrightarrow>
      (\<exists>dataset \<in> set (fst (yield_datasets L model)).
         run check = (\<lambda>st obj. check_fit_one L st obj dataset))) \<and>
   (\<forall>p q r d l.
      check_estimator
        (L\<lparr>predict_one := p, predict_proba_one := q, debug_one := r, dumps := d, loads := l\<rparr>)
        st obj
      = check_estimator L st obj)"
proof (intro conjI allI ballI impI)
  fix check
  assume c: "check \<in> set (fst (yield_checks L model))"
    and n: "name check \<in> {''check_pickling'', ''check_debug_one'',
      ''check_predict_proba_one'', ''check_predict_proba_one_binary''}"
  from c consider "check = check_repr_fn L" | "check = check_str_fn L"
    | "check = check_get_tags_fn L"
    | "check \<in> set (fst (yield_checks_loop L model (fst (yield_datasets L model))))"
    by (auto simp: yield_checks_unfold)
  then show "\<exists>dataset \<in> set (fst (yield_datasets L model)).
      run check = (\<lambda>st obj. check_fit_one L st obj dataset)"
  proof cases
    case 4
    from loop_checks_are_bound [OF this] show ?thesis
      by (auto simp: with_dataset_simps)
  qed (use n in \<open>simp_all add: fn_defs\<close>)
next
  fix p q r d l
  show "check_estimator
        (L\<lparr>predict_one := p, predict_proba_one := q, debug_one := r, dumps := d, loads := l\<rparr>)
        st obj
      = check_estimator L st obj"
    by (rule check_estimator_agree) simp_all
qed (simp_all add: with_dataset_simps)

lemma demo_estimator_passes:
  "snd (check_estimator demo_library (demo_store (estimator LogisticRegression)) 0) = Inr ()"
  by (simp add: check_estimator_def yield_checks_def yield_datasets_def with_dataset_def
      fn_defs check_repr_def check_str_def check_get_tags_def check_fit_one_def
      isinstance_def iteration_defs created_def enumerate_eq_zip demo_defs)

theorem with_dataset_runs_check_fit_one_witness:
  "with_dataset demo_library phishing (check_pickling_fn demo_library)
     \<in> set (fst (yield_checks demo_library (estimator LogisticRegression))) \<and>
   name (with_dataset demo_library phishing (check_pickling_fn demo_library))
     = ''check_pickling'' \<and>
   (\<exists>dataset \<in> set (fst (yield_datasets demo_library (estimator LogisticRegression))).
      run (with_dataset demo_library phishing (check_pickling_fn demo_library))
        = (\<lambda>st obj. check_fit_one demo_library st obj dataset)) \<and>
   check_estimator
     (demo_library\<lparr>predict_one := (\<lambda>st self x. (st, Inl ''NotImplementedError'')),
        predict_proba_one := (\<lambda>st self x. (st, Inl ''NotImplementedError'')),
        debug_one := (\<lambda>st self x. (st, Inl ''NotImplementedError'')),
        dumps := (\<lambda>st self. (st, Inl ''PicklingError'')),
        loads := (\<lambda>st pickled. (st, Inl ''UnpicklingError''))\<rparr>)
     (demo_store (estimator LogisticRegression)) 0
   = check_estimator demo_library (demo_store (estimator LogisticRegression)) 0 \<and>
   snd (check_estimator demo_library (demo_store (estimator LogisticRegression)) 0) = Inr ()"
proof -
  have yielded: "with_dataset demo_library phishing (check_pickling_fn demo_library)
      \<in> set (fst (yield_checks demo_library (estimator LogisticRegression)))"
    by (simp add: yield_checks_def yield_datasets_def created_def enumerate_eq_zip demo_defs)
  have named: "name (with_dataset demo_library phishing (check_pickling_fn demo_library))
      = ''check_pickling''"
    by (simp add: with_dataset_simps fn_defs)
  then have among: "name (with_dataset demo_library phishing (check_pickling_fn demo_library))
      \<in> {''check_pickling'', ''check_debug_one'', ''check_predict_proba_one'',
        ''check_predict_proba_one_binary''}"
    by simp
  note inst = with_dataset_runs_check_fit_one
    [of demo_library "estimator LogisticRegression"
      "demo_store (estimator LogisticRegression)" 0]
  note runs = inst [THEN conjunct2, THEN conjunct1, THEN bspec, OF yielded, THEN mp, OF among]
  have same: "check_estimator
     (demo_library\<lparr>predict_one := (\<lambda>st self x. (st, Inl ''NotImplementedError'')),
        predict_proba_one := (\<lambda>st self x. (st, Inl ''NotImplementedError'')),
        debug_one := (\<lambda>st self x. (st, Inl ''NotImplementedError'')),
        dumps := (\<lambda>st self. (st, Inl ''PicklingError'')),
        loads := (\<lambda>st pickled. (st, Inl ''UnpicklingError''))\<rparr>)
     (demo_store (estimator LogisticRegression)) 0
   = check_estimator demo_library (demo_store (estimator LogisticRegression)) 0"
    by (rule inst [THEN conjunct2, THEN conjunct2, rule_format])
  from yielded named runs same demo_estimator_passes show ?thesis
    by (intro conjI)
qed


text \<open>
  A dataset that is a generator is shared by the checks of its round: the first check
  takes all its pairs and the later ones find none left. For a classifier of more than
  two classes the copies handed to the three checks on \<^verbatim>\<open>Phishing\<close> learn from two
  pairs each; of the three copies handed to the checks on the iris stream only the
  first learns, from its one pair.
\<close>

lemma generator_is_shared:
  "map (\<lambda>a. state (objs (fst (check_estimator demo_library
          (demo_store (estimator KNeighborsClassifier)) 0)) a)) [0, 1, 2, 3, 4, 5, 6, 7, 8, 9]
     = [0, 0, 0, 0, 2, 2, 2, 1, 0, 0]"
  by (simp add: check_estimator_def yield_checks_def yield_datasets_def with_dataset_def
      fn_defs check_repr_def check_str_def check_get_tags_def check_fit_one_def
      isinstance_def iteration_defs created_def enumerate_eq_zip demo_defs)

subsection \<open>How failure is reported\<close>















subsection \<open>The caller's model is left alone\<close>

lemma keeps_allocated: "keeps st touched st1 \<Longrightarrow> allocated st a \<Longrightarrow> allocated st1 a"
  by (simp add: keeps_def allocated_def)

lemma keeps_then:
  assumes "keeps st touched st1" and "keeps st1 touched1 st2"
    and "\<And>a. a \<in> touched1 \<Longrightarrow> allocated st a \<Longrightarrow> a \<in> touched"
  shows "keeps st touched st2"
  unfolding keeps_def
proof (intro conjI allI impI)
  from assms(1,2) show "fresh st \<le> fresh st2"
    by (simp add: keeps_def)
next
  fix a
  assume a: "allocated st a \<and> a \<notin> touched"
  with assms(3) have "a \<notin> touched1" by blast
  moreover from a assms(1) have "allocated st1 a" by (simp add: keeps_allocated)
  ultimately have "objs st2 a = objs st1 a"
    using assms(2) by (simp add: keeps_def)
  also from a assms(1) have "objs st1 a = objs st a"
    by (simp add: keeps_def)
  finally show "objs st2 a = objs st a" .
qed

lemma keeps_refl: "keeps st touched st"
  by (simp add: keeps_def)

lemma acts_deepcopy:
  "acts_on_receiver L \<Longrightarrow> allocated st obj \<Longrightarrow> deepcopy L st obj = (st1, r) \<Longrightarrow>
     keeps st {} st1"
  unfolding acts_on_receiver_def by meson

lemma acts_deepcopy_new:
  "acts_on_receiver L \<Longrightarrow> allocated st obj \<Longrightarrow> deepcopy L st obj = (st1, Inr copied) \<Longrightarrow>
     \<not> allocated st copied \<and> allocated st1 copied"
  unfolding acts_on_receiver_def by metis

lemma acts_fit_one:
  "acts_on_receiver L \<Longrightarrow> allocated st self \<Longrightarrow> fit_one L st self x y = (st1, r) \<Longrightarrow>
     keeps st {self} st1"
  unfolding acts_on_receiver_def by meson

lemma acts_fit_one_returned:
  "acts_on_receiver L \<Longrightarrow> allocated st self \<Longrightarrow>
     fit_one L st self x y = (st1, Inr (returned, x1, y1)) \<Longrightarrow>
     allocated st1 returned \<and> (returned = self \<or> \<not> allocated st returned)"
  unfolding acts_on_receiver_def by metis

lemma acts_repr:
  "acts_on_receiver L \<Longrightarrow> allocated st self \<Longrightarrow> py_repr L st self = (st1, r) \<Longrightarrow>
     keeps st {self} st1"
  unfolding acts_on_receiver_def by meson

lemma acts_str:
  "acts_on_receiver L \<Longrightarrow> allocated st self \<Longrightarrow> py_str L st self = (st1, r) \<Longrightarrow>
     keeps st {self} st1"
  unfolding acts_on_receiver_def by meson

lemma acts_get_tags:
  "acts_on_receiver L \<Longrightarrow> allocated st self \<Longrightarrow> get_tags L st self = (st1, r) \<Longrightarrow>
     keeps st {self} st1"
  unfolding acts_on_receiver_def by meson

lemma take_pair_keeps:
  "keeps (take_pair L dataset st) touched st1 \<Longrightarrow> keeps st touched st1"
  by (simp add: keeps_def allocated_def take_pair_def split: if_splits)

lemma take_pair_allocated: "allocated (take_pair L dataset st) a = allocated st a"
  by (simp add: allocated_def take_pair_def)

lemma fit_loop_keeps:
  "acts_on_receiver L \<Longrightarrow> allocated st model \<Longrightarrow>
     keeps st {model} (fst (check_fit_one_loop L dataset k st model ds))"
proof (induction ds arbitrary: st model)
  case Nil
  show ?case by (simp add: keeps_refl)
next
  case (Cons p ds)
  obtain x y where p: "p = (x, y)" by (cases p)
  let ?st = "take_pair L dataset st"
  obtain st1 r where f: "fit_one L ?st model x y = (st1, r)"
    by (cases "fit_one L ?st model x y")
  from Cons.prems(2) have here: "allocated ?st model"
    by (simp add: take_pair_allocated)
  from Cons.prems(1) here f have "keeps ?st {model} st1"
    by (rule acts_fit_one)
  then have k1: "keeps st {model} st1"
    by (rule take_pair_keeps)
  show ?case
  proof (cases r)
    case (Inl e)
    with p f k1 show ?thesis by simp
  next
    case (Inr t)
    obtain model1 x1 y1 where t: "t = (model1, x1, y1)" by (cases t)
    from f Inr t have "fit_one L ?st model x y = (st1, Inr (model1, x1, y1))" by simp
    from acts_fit_one_returned [OF Cons.prems(1) here this]
    have ret: "allocated st1 model1" "model1 = model \<or> \<not> allocated st model1"
      by (simp_all add: take_pair_allocated)
    from Cons.IH [OF Cons.prems(1) ret(1)]
    have k2: "keeps st1 {model1} (fst (check_fit_one_loop L dataset k st1 model1 ds))" .
    from ret(2) have "keeps st {model} (fst (check_fit_one_loop L dataset k st1 model1 ds))"
      by (intro keeps_then [OF k1 k2]) auto
    with p f Inr t k1 show ?thesis by simp
  qed
qed

lemma yielded_check_keeps:
  assumes "acts_on_receiver L" and "check \<in> set (fst (yield_checks L model))"
    and "allocated st obj"
  shows "keeps st {obj} (fst (run check st obj))"
proof -
  from assms(2) consider "check = check_repr_fn L" | "check = check_str_fn L"
    | "check = check_get_tags_fn L"
    | "check \<in> set (fst (yield_checks_loop L model (fst (yield_datasets L model))))"
    by (auto simp: yield_checks_unfold)
  then show ?thesis
  proof cases
    case 1
    obtain st1 r where c: "py_repr L st obj = (st1, r)" by (cases "py_repr L st obj")
    with assms(1,3) have "keeps st {obj} st1"
      by (rule acts_repr)
    with 1 c show ?thesis
      by (cases r) (simp_all add: fn_defs check_repr_def)
  next
    case 2
    obtain st1 r where c: "py_str L st obj = (st1, r)" by (cases "py_str L st obj")
    with assms(1,3) have "keeps st {obj} st1"
      by (rule acts_str)
    with 2 c show ?thesis
      by (cases r) (simp_all add: fn_defs check_str_def)
  next
    case 3
    obtain st1 r where c: "get_tags L st obj = (st1, r)" by (cases "get_tags L st obj")
    with assms(1,3) have "keeps st {obj} st1"
      by (rule acts_get_tags)
    with 3 c show ?thesis
      by (cases r) (simp_all add: fn_defs check_get_tags_def)
  next
    case 4
    from loop_checks_are_bound [OF this] obtain dataset where
      "run check = (\<lambda>st obj. check_fit_one L st obj dataset)"
      by (auto simp: with_dataset_simps)
    with fit_loop_keeps [OF assms(1,3)] show ?thesis
      by (simp add: check_fit_one_def)
  qed
qed

lemma for_checks_keeps:
  assumes "acts_on_receiver L"
    and "\<And>check st obj. check \<in> set checks \<Longrightarrow> allocated st obj \<Longrightarrow>
      keeps st {obj} (fst (run check st obj))"
  shows "allocated st model \<Longrightarrow>
     keeps st {} (fst (for_checks L st model checks)) \<and>
     (\<forall>a \<in> set (check_arguments L st model checks). \<not> allocated st a)"
  using assms(2)
proof (induction checks arbitrary: st)
  case Nil
  show ?case by (simp add: keeps_refl)
next
  case (Cons check checks)
  obtain st1 r where d: "deepcopy L st model = (st1, r)" by (cases "deepcopy L st model")
  from assms(1) Cons.prems(1) d have k1: "keeps st {} st1"
    by (rule acts_deepcopy)
  show ?case
  proof (cases r)
    case (Inl e)
    with d k1 show ?thesis by simp
  next
    case (Inr copied)
    from d Inr have "deepcopy L st model = (st1, Inr copied)" by simp
    from acts_deepcopy_new [OF assms(1) Cons.prems(1) this]
    have new: "\<not> allocated st copied" "allocated st1 copied"
      by simp_all
    obtain st2 q where c: "run check st1 copied = (st2, q)" by (cases "run check st1 copied")
    have "check \<in> set (check # checks)" by simp
    from Cons.prems(2) [OF this new(2)] c have k2: "keeps st1 {copied} st2" by simp
    from new(1) have k12: "keeps st {} st2"
      by (intro keeps_then [OF k1 k2]) auto
    show ?thesis
    proof (cases q)
      case (Inl err)
      with d \<open>r = Inr copied\<close> c k12 new(1) show ?thesis by simp
    next
      case (Inr u)
      from k12 Cons.prems(1) have "allocated st2 model" by (rule keeps_allocated)
      from Cons.IH [OF this] Cons.prems(2)
      have rest: "keeps st2 {} (fst (for_checks L st2 model checks))"
        "\<forall>a \<in> set (check_arguments L st2 model checks). \<not> allocated st2 a"
        by simp_all
      from k12 rest(1) have "keeps st {} (fst (for_checks L st2 model checks))"
        by (rule keeps_then) simp
      moreover from rest(2) k12
      have "\<forall>a \<in> set (check_arguments L st2 model checks). \<not> allocated st a"
        using keeps_allocated by blast
      ultimately show ?thesis
        using d \<open>r = Inr copied\<close> c Inr new(1) by simp
    qed
  qed
qed

lemma check_estimator_store:
  "fst (check_estimator L st model) =
     fst (for_checks L st model (fst (yield_checks L (objs st model))))"
  by (simp add: check_estimator_def split: prod.splits sum.splits option.splits)

text \<open>
  Claim C10, as amended. Let the library act on objects only (\<open>acts_on_receiver\<close>):
  \<^verbatim>\<open>copy.deepcopy\<close> returns a new object and changes no object that exists, and
  \<^verbatim>\<open>repr\<close>, \<^verbatim>\<open>str\<close>, \<^verbatim>\<open>_get_tags\<close> and \<^verbatim>\<open>fit_one\<close> change no existing object but
  their receiver, \<^verbatim>\<open>fit_one\<close> returning its receiver or a new object. Let the
  caller's model be an object of the store. Then every object that
  \<^verbatim>\<open>check_estimator\<close> hands to a check is a deep copy made for that check, an object
  that the caller's store did not have, so none of them is the caller's model; and
  \<^verbatim>\<open>check_estimator\<close> leaves the caller's model, and every other object of the
  caller's store, as it was.
\<close>

theorem check_estimator_leaves_model:
  "acts_on_receiver L \<Longrightarrow> allocated st model \<Longrightarrow>
     objs (fst (check_estimator L st model)) model = objs st model \<and>
     keeps st {} (fst (check_estimator L st model)) \<and>
     (\<forall>a \<in> set (check_arguments L st model (fst (yield_checks L (objs st model)))).
        \<not> allocated st a \<and> a \<noteq> model)"
proof -
  assume acts: "acts_on_receiver L" and model: "allocated st model"
  have "keeps st {} (fst (for_checks L st model (fst (yield_checks L (objs st model))))) \<and>
     (\<forall>a \<in> set (check_arguments L st model (fst (yield_checks L (objs st model)))).
        \<not> allocated st a)"
    by (rule for_checks_keeps [OF acts _ model]) (rule yielded_check_keeps [OF acts])
  then have kept: "keeps st {} (fst (check_estimator L st model))"
    and new: "\<forall>a \<in> set (check_arguments L st model (fst (yield_checks L (objs st model)))).
        \<not> allocated st a"
    by (simp_all add: check_estimator_store)
  from kept model have "objs (fst (check_estimator L st model)) model = objs st model"
    by (simp add: keeps_def)
  moreover from new model
  have "\<forall>a \<in> set (check_arguments L st model (fst (yield_checks L (objs st model)))).
        \<not> allocated st a \<and> a \<noteq> model"
    by blast
  ultimately show ?thesis
    using kept by blast
qed

lemma demo_library_acts: "acts_on_receiver demo_library"
  unfolding acts_on_receiver_def
  by (auto simp: demo_library_def demo_fit_one_def demo_deepcopy_def keeps_def allocated_def)

theorem check_estimator_leaves_model_witness:
  "acts_on_receiver demo_library \<and>
   allocated (demo_store (estimator LogisticRegression)) 0 \<and>
   objs (fst (check_estimator demo_library (demo_store (estimator LogisticRegression)) 0)) 0
     = objs (demo_store (estimator LogisticRegression)) 0 \<and>
   list_all (\<lambda>a. \<not> allocated (demo_store (estimator LogisticRegression)) a \<and> a \<noteq> 0)
     (check_arguments demo_library (demo_store (estimator LogisticRegression)) 0
        (fst (yield_checks demo_library
           (objs (demo_store (estimator LogisticRegression)) 0)))) \<and>
   check_arguments demo_library (demo_store (estimator LogisticRegression)) 0
     (fst (yield_checks demo_library (objs (demo_store (estimator LogisticRegression)) 0)))
     = [1, 2, 3, 4, 5, 6, 7, 8] \<and>
   map (\<lambda>a. state (objs (fst (check_estimator demo_library
          (demo_store (estimator LogisticRegression)) 0)) a)) [0, 4, 8] = [0, 2, 2]"
proof -
  have here: "allocated (demo_store (estimator LogisticRegression)) 0"
    by (simp add: allocated_def demo_store_def)
  note inst = check_estimator_leaves_model [OF demo_library_acts here]
  note same = inst [THEN conjunct1]
  note copies = inst [THEN conjunct2, THEN conjunct2, unfolded Ball_set]
  have handed: "check_arguments demo_library (demo_store (estimator LogisticRegression)) 0
     (fst (yield_checks demo_library (objs (demo_store (estimator LogisticRegression)) 0)))
     = [1, 2, 3, 4, 5, 6, 7, 8]"
    by (simp add: yield_checks_def yield_datasets_def with_dataset_def
      fn_defs check_repr_def check_str_def check_get_tags_def check_fit_one_def
      isinstance_def iteration_defs created_def enumerate_eq_zip demo_defs)
  have learned: "map (\<lambda>a. state (objs (fst (check_estimator demo_library
          (demo_store (estimator LogisticRegression)) 0)) a)) [0, 4, 8] = [0, 2, 2]"
    by (simp add: check_estimator_def yield_checks_def yield_datasets_def with_dataset_def
      fn_defs check_repr_def check_str_def check_get_tags_def check_fit_one_def
      isinstance_def iteration_defs created_def enumerate_eq_zip demo_defs)
  from demo_library_acts here same copies handed learned show ?thesis
    by (intro conjI)
qed

text \<open>
  Without the condition the claim fails. With models whose \<^verbatim>\<open>__deepcopy__\<close> returns
  the model itself, the checks are handed the caller's model, and after
  \<^verbatim>\<open>check_estimator\<close> the caller's model has learned from ten pairs.
\<close>

theorem check_estimator_changes_self_copying_model:
  "0 \<in> set (check_arguments selfcopy_library (demo_store (estimator LogisticRegression)) 0
            (fst (yield_checks selfcopy_library
               (objs (demo_store (estimator LogisticRegression)) 0)))) \<and>
   state (objs (demo_store (estimator LogisticRegression)) 0) = 0 \<and>
   state (objs (fst (check_estimator selfcopy_library
            (demo_store (estimator LogisticRegression)) 0)) 0) = 10"
  by (simp add: check_estimator_def yield_checks_def yield_datasets_def with_dataset_def
      fn_defs check_repr_def check_str_def check_get_tags_def check_fit_one_def
      isinstance_def iteration_defs created_def enumerate_eq_zip selfcopy_library_def
      demo_defs)

end
